theory Spec2Isabelle
  imports Main "HOL-Library.Word" "HOL-Library.Sublist"
begin

section \<open>JavaScript strings\<close>

text \<open>
  A JavaScript string is a sequence of UTF-16 code units. Every string operation of
  \<^verbatim>\<open>app.js\<close> (regular-expression replacement without the \<^verbatim>\<open>u\<close> flag,
  \<^verbatim>\<open>substring\<close>, concatenation in a template literal) works on code units, so a string is
  a list of 16-bit words. String literals of the source are all ASCII and are written
  through \<open>js\<close>.
\<close>

type_synonym code_unit = "16 word"
type_synonym jsstring = "code_unit list"

definition js :: "string \<Rightarrow> jsstring" where
  "js s = map (\<lambda>c. of_nat (of_char c)) s"

section \<open>The filename sanitizer\<close>

text \<open>
  \<^verbatim>\<open>
  function sanitizeFilename(url) {
    return url
      .replace(/https?:\/\//, '')
      .replace(/[^a-z0-9]/gi, '_')
      .toLowerCase()
      .substring(0, 50);
  }
  \<close>
\<close>

text \<open>
  The pattern \<^verbatim>\<open>/https?:\/\//\<close> tried at the start of \<open>s\<close>: the length of the match, if
  there is one. The two alternatives differ in their fifth code unit, so at most one of
  them matches.
\<close>

definition scheme_match :: "jsstring \<Rightarrow> nat option" where
  "scheme_match s =
     (if prefix (js ''https://'') s then Some 8
      else if prefix (js ''http://'') s then Some 7
      else None)"

text \<open>
  \<^verbatim>\<open>.replace(/https?:\/\//, '')\<close>: the pattern has neither an anchor nor the \<^verbatim>\<open>g\<close> flag, so
  the string is scanned from the left and the first match, wherever it starts, is removed.
\<close>

fun replace_scheme :: "jsstring \<Rightarrow> jsstring" where
  "replace_scheme [] = []"
| "replace_scheme (c # cs) =
     (case scheme_match (c # cs) of
        Some n \<Rightarrow> drop n (c # cs)
      | None \<Rightarrow> c # replace_scheme cs)"

text \<open>
  The class \<^verbatim>\<open>[a-z0-9]\<close> under the \<^verbatim>\<open>i\<close> flag: digits and the ASCII letters of both cases
  (without the \<^verbatim>\<open>u\<close> flag no code unit from 128 on is canonicalised to an ASCII letter).
\<close>

definition alnum :: "code_unit \<Rightarrow> bool" where
  "alnum c \<longleftrightarrow>
     (0x30 \<le> c \<and> c \<le> 0x39) \<or> (0x41 \<le> c \<and> c \<le> 0x5A) \<or> (0x61 \<le> c \<and> c \<le> 0x7A)"

definition underscore_unless_alnum :: "code_unit \<Rightarrow> code_unit" where
  "underscore_unless_alnum c = (if alnum c then c else 0x5F)"

text \<open>\<^verbatim>\<open>.replace(/[^a-z0-9]/gi, '_')\<close>: with the \<^verbatim>\<open>g\<close> flag, every code unit outside the class.\<close>

definition replace_nonalnum :: "jsstring \<Rightarrow> jsstring" where
  "replace_nonalnum s = map underscore_unless_alnum s"

text \<open>
  \<^verbatim>\<open>.toLowerCase()\<close> on ASCII code units, the only ones it receives here (the step before
  leaves ASCII letters, digits and underscores): \<open>A\<close> to \<open>Z\<close> move up by 32.
\<close>

definition lower_unit :: "code_unit \<Rightarrow> code_unit" where
  "lower_unit c = (if 0x41 \<le> c \<and> c \<le> 0x5A then c + 0x20 else c)"

definition toLowerCase :: "jsstring \<Rightarrow> jsstring" where
  "toLowerCase s = map lower_unit s"

definition sanitizeFilename :: "jsstring \<Rightarrow> jsstring" where
  "sanitizeFilename url = take 50 (toLowerCase (replace_nonalnum (replace_scheme url)))"

text \<open>A code unit of \<^verbatim>\<open>[a-z0-9_]\<close>.\<close>

definition safe_unit :: "code_unit \<Rightarrow> bool" where
  "safe_unit c \<longleftrightarrow> (0x30 \<le> c \<and> c \<le> 0x39) \<or> (0x61 \<le> c \<and> c \<le> 0x7A) \<or> c = 0x5F"

subsection \<open>The sanitizer as the specification words it\<close>

text \<open>
  The specification's first step strips a \<^emph>\<open>leading\<close> scheme only; the other three steps
  are those of the source.
\<close>

definition strip_leading_scheme :: "jsstring \<Rightarrow> jsstring" where
  "strip_leading_scheme s =
     (if prefix (js ''https://'') s then drop 8 s
      else if prefix (js ''http://'') s then drop 7 s
      else s)"

definition spec_sanitizeFilename :: "jsstring \<Rightarrow> jsstring" where
  "spec_sanitizeFilename s = take 50 (toLowerCase (replace_nonalnum (strip_leading_scheme s)))"

section \<open>Values, errors and the render engine\<close>

text \<open>
  A thrown JavaScript exception; the handlers read its \<^verbatim>\<open>message\<close> only.
\<close>

datatype error = Error (message: jsstring)

text \<open>
  A JSON value, as \<^verbatim>\<open>express.json()\<close> parses it and \<^verbatim>\<open>res.json\<close> serialises it. Numbers
  are IEEE doubles; the code only passes them on, so their type is left uninterpreted.
\<close>

typedecl number

datatype json =
    JNull
  | JBool bool
  | JNumber number
  | JString jsstring
  | JArray "json list"
  | JObject "(jsstring \<times> json) list"

text \<open>
  An options object is the mapping from its own property names to their values; a PDF is
  a \<^verbatim>\<open>Buffer\<close> of bytes.
\<close>

type_synonym pdf_options = "jsstring \<rightharpoonup> json"
type_synonym bytes = "8 word list"

text \<open>
  The calls \<open>generatePDF\<close> makes to Puppeteer, in the order made. The launch arguments
  and the user agent are constants of the source and are left out of the event.
\<close>

datatype event =
    Launch
  | NewPage
  | SetViewport nat nat
  | SetUserAgent
  | Goto jsstring nat
  | WaitForTimeout nat
  | Pdf pdf_options
  | Close

text \<open>
  Puppeteer is an external collaborator: each awaited call either resolves or rejects with
  an error, and which it does is the engine's choice. \<open>close\<close> is indexed by the number
  of calls to \<^verbatim>\<open>browser.close()\<close> made before, so that a first close may reject and a second
  resolve.
\<close>

record engine =
  launch :: "error option"
  newPage :: "error option"
  setViewport :: "error option"
  setUserAgent :: "error option"
  goto :: "jsstring \<Rightarrow> error option"
  waitForTimeout :: "error option"
  pdf :: "pdf_options \<Rightarrow> error + bytes"
  close :: "nat \<Rightarrow> error option"

text \<open>
  The state of one call of \<open>generatePDF\<close>: whether the variable \<^verbatim>\<open>browser\<close> has been
  assigned, and the calls made to the engine so far.
\<close>

record rstate =
  browser :: bool
  trace :: "event list"

type_synonym 'a async = "rstate \<Rightarrow> (error + 'a) \<times> rstate"

definition resolved :: "error option \<Rightarrow> error + unit" where
  "resolved r = (case r of None \<Rightarrow> Inr () | Some e \<Rightarrow> Inl e)"

text \<open>\<^verbatim>\<open>await\<close> of an engine call: the call is recorded, its outcome is the engine's.\<close>

definition await :: "event \<Rightarrow> error + 'a \<Rightarrow> 'a async" where
  "await ev outcome s = (outcome, s\<lparr>trace := trace s @ [ev]\<rparr>)"

text \<open>Sequencing of statements: a rejection skips the rest of the block.\<close>

definition then_do :: "'a async \<Rightarrow> ('a \<Rightarrow> 'b async) \<Rightarrow> 'b async" where
  "then_do m f s = (case m s of (Inl e, s') \<Rightarrow> (Inl e, s') | (Inr x, s') \<Rightarrow> f x s')"

definition return_value :: "'a \<Rightarrow> 'a async" where
  "return_value x s = (Inr x, s)"

definition throw :: "error \<Rightarrow> 'a async" where
  "throw e s = (Inl e, s)"

text \<open>\<^verbatim>\<open>try { m } catch (error) { h error }\<close>\<close>

definition try_catch :: "'a async \<Rightarrow> (error \<Rightarrow> 'a async) \<Rightarrow> 'a async" where
  "try_catch m h s = (case m s of (Inl e, s') \<Rightarrow> h e s' | (Inr x, s') \<Rightarrow> (Inr x, s'))"

definition assign_browser :: "unit async" where
  "assign_browser s = (Inr (), s\<lparr>browser := True\<rparr>)"

definition close_browser :: "engine \<Rightarrow> unit async" where
  "close_browser eng s = await Close (resolved (close eng (count_list (trace s) Close))) s"

section \<open>The render adapter\<close>

text \<open>
  \<^verbatim>\<open>
  const pdfOptions = {
    format: 'A4',
    printBackground: true,
    margin: { top: '20px', right: '20px', bottom: '20px', left: '20px' },
    displayHeaderFooter: true,
    headerTemplate: '<div style="font-size: 10px; margin: auto;"></div>',
    footerTemplate: '<div style="font-size: 10px; margin: auto; color: #666;">
      <span class="pageNumber"></span> / <span class="totalPages"></span></div>',
    ...options
  };
  \<close>
  (the footer template is one line in the source). The double quote is code unit 34.
\<close>

definition dquote :: code_unit where
  "dquote = 0x22"

definition default_margin :: json where
  "default_margin =
     JObject [(js ''top'', JString (js ''20px'')), (js ''right'', JString (js ''20px'')),
              (js ''bottom'', JString (js ''20px'')), (js ''left'', JString (js ''20px''))]"

definition default_headerTemplate :: jsstring where
  "default_headerTemplate =
     js ''<div style='' @ [dquote] @ js ''font-size: 10px; margin: auto;'' @ [dquote] @
     js ''></div>''"

definition default_footerTemplate :: jsstring where
  "default_footerTemplate =
     js ''<div style='' @ [dquote] @ js ''font-size: 10px; margin: auto; color: #666;'' @
     [dquote] @ js ''><span class='' @ [dquote] @ js ''pageNumber'' @ [dquote] @
     js ''></span> / <span class='' @ [dquote] @ js ''totalPages'' @ [dquote] @
     js ''></span></div>''"

definition default_pdf_options :: pdf_options where
  "default_pdf_options =
     [js ''format'' \<mapsto> JString (js ''A4''),
      js ''printBackground'' \<mapsto> JBool True,
      js ''margin'' \<mapsto> default_margin,
      js ''displayHeaderFooter'' \<mapsto> JBool True,
      js ''headerTemplate'' \<mapsto> JString default_headerTemplate,
      js ''footerTemplate'' \<mapsto> JString default_footerTemplate]"

text \<open>The spread \<^verbatim>\<open>...options\<close> comes last: its properties replace those written before.\<close>

definition pdfOptions :: "pdf_options \<Rightarrow> pdf_options" where
  "pdfOptions options = default_pdf_options ++ options"

text \<open>The body of the \<^verbatim>\<open>try\<close> block of \<open>generatePDF\<close>.\<close>

definition try_block :: "engine \<Rightarrow> jsstring \<Rightarrow> pdf_options \<Rightarrow> bytes async" where
  "try_block eng url options =
     then_do (await Launch (resolved (launch eng))) (\<lambda>_.
     then_do assign_browser (\<lambda>_.
     then_do (await NewPage (resolved (newPage eng))) (\<lambda>_.
     then_do (await (SetViewport 1920 1080) (resolved (setViewport eng))) (\<lambda>_.
     then_do (await SetUserAgent (resolved (setUserAgent eng))) (\<lambda>_.
     then_do (await (Goto url 30000) (resolved (goto eng url))) (\<lambda>_.
     then_do (await (WaitForTimeout 2000) (resolved (waitForTimeout eng))) (\<lambda>_.
     then_do (await (Pdf (pdfOptions options)) (pdf eng (pdfOptions options))) (\<lambda>buffer.
     then_do (close_browser eng) (\<lambda>_.
     return_value buffer)))))))))"

text \<open>
  \<^verbatim>\<open>
  } catch (error) {
    if (browser) { await browser.close(); }
    throw error;
  }
  \<close>
\<close>

definition catch_block :: "engine \<Rightarrow> error \<Rightarrow> bytes async" where
  "catch_block eng err =
     then_do (\<lambda>s. if browser s then close_browser eng s else return_value () s) (\<lambda>_.
     throw err)"

definition generatePDF :: "engine \<Rightarrow> jsstring \<Rightarrow> pdf_options \<Rightarrow> (error + bytes) \<times> rstate" where
  "generatePDF eng url options =
     try_catch (try_block eng url options) (catch_block eng) \<lparr>browser = False, trace = []\<rparr>"

text \<open>The number of calls to \<^verbatim>\<open>browser.close()\<close> in a run.\<close>

definition closes :: "(error + bytes) \<times> rstate \<Rightarrow> nat" where
  "closes run = count_list (trace (snd run)) Close"

section \<open>The URL validator\<close>

text \<open>
  \<^verbatim>\<open>
  function isValidUrl(string) {
    try { new URL(string); return true; } catch (_) { return false; }
  }
  \<close>
  The constructor \<^verbatim>\<open>URL\<close> is Node's; it is a parameter here: it returns a URL record or
  throws.
\<close>

definition isValidUrl :: "(jsstring \<Rightarrow> error + 'u) \<Rightarrow> jsstring \<Rightarrow> error + bool" where
  "isValidUrl URL string = (case URL string of Inr _ \<Rightarrow> Inr True | Inl _ \<Rightarrow> Inr False)"

section \<open>The endpoint layer\<close>

text \<open>
  What a handler does to \<^verbatim>\<open>res\<close>: the status set (200 when none is), the headers set with
  \<^verbatim>\<open>res.setHeader\<close> in the order set, and the body given to \<^verbatim>\<open>res.json\<close> or \<^verbatim>\<open>res.send\<close>.
\<close>

datatype header_value = HString jsstring | HNumber nat

datatype payload = Json "(jsstring \<times> json) list" | Binary bytes

record response =
  res_status :: nat
  res_headers :: "(jsstring \<times> header_value) list"
  res_body :: payload

text \<open>
  The fields the handlers read from \<^verbatim>\<open>req.body\<close>, each absent or a string (\<^verbatim>\<open>options\<close>: absent
  or an object); the query of a GET request maps parameter names to strings.
\<close>

record post_body =
  body_url :: "jsstring option"
  body_filename :: "jsstring option"
  body_options :: "pdf_options option"

type_synonym query = "jsstring \<rightharpoonup> jsstring"

text \<open>\<^verbatim>\<open>!v\<close> for a value that is \<^verbatim>\<open>undefined\<close> or a string: the empty string is falsy.\<close>

definition falsy :: "jsstring option \<Rightarrow> bool" where
  "falsy v = (case v of None \<Rightarrow> True | Some s \<Rightarrow> s = [])"

text \<open>\<^verbatim>\<open>filename || `${sanitizeFilename(url)}.pdf`\<close>\<close>

definition pdfFilename :: "jsstring option \<Rightarrow> jsstring \<Rightarrow> jsstring" where
  "pdfFilename filename url =
     (case filename of
        None \<Rightarrow> sanitizeFilename url @ js ''.pdf''
      | Some f \<Rightarrow> if f = [] then sanitizeFilename url @ js ''.pdf'' else f)"

text \<open>
  The \<^verbatim>\<open>catch\<close> of both handlers; \<open>now\<close> is \<^verbatim>\<open>new Date().toISOString()\<close>.
\<close>

definition generation_failed :: "error \<Rightarrow> jsstring \<Rightarrow> response" where
  "generation_failed err now =
     \<lparr>res_status = 500, res_headers = [],
      res_body = Json [(js ''error'', JString (js ''Failed to generate PDF'')),
                       (js ''message'', JString (message err)),
                       (js ''timestamp'', JString now)]\<rparr>"

text \<open>
  \<^verbatim>\<open>res.setHeader\<close> is Node's. It checks the value it is given against the pattern
  \<^verbatim>\<open>/[^\t\x20-\x7e\x80-\xff]/\<close>: a value holding a code unit other than a tab, \<open>0x20\<close> to
  \<open>0x7E\<close> or \<open>0x80\<close> to \<open>0xFF\<close> is refused with the \<^verbatim>\<open>TypeError\<close>
  \<^verbatim>\<open>Invalid character in header content ["name"]\<close>, and the header is not set. A number
  is checked as its decimal digits, which pass. The three names the handlers use differ,
  so setting a header adds it to those set before.
\<close>

definition valid_header_unit :: "code_unit \<Rightarrow> bool" where
  "valid_header_unit c \<longleftrightarrow> c = 0x09 \<or> (0x20 \<le> c \<and> c \<le> 0x7E) \<or> (0x80 \<le> c \<and> c \<le> 0xFF)"

definition valid_header_value :: "header_value \<Rightarrow> bool" where
  "valid_header_value v = (case v of HString s \<Rightarrow> list_all valid_header_unit s | HNumber n \<Rightarrow> True)"

definition setHeader ::
  "jsstring \<Rightarrow> header_value \<Rightarrow> (jsstring \<times> header_value) list \<Rightarrow>
   error + (jsstring \<times> header_value) list" where
  "setHeader name v hs =
     (if valid_header_value v then Inr (hs @ [(name, v)])
      else Inl (Error (js ''Invalid character in header content ['' @ [dquote] @ name @
                       [dquote] @ js '']'')))"

text \<open>
  The end of the \<^verbatim>\<open>try\<close> block of both handlers, from the first \<^verbatim>\<open>res.setHeader\<close> on:
  \<^verbatim>\<open>
  res.setHeader('Content-Type', 'application/pdf');
  res.setHeader('Content-Disposition', `attachment; filename="${pdfFilename}"`);
  res.setHeader('Content-Length', pdf.length);
  res.send(pdf);
  \<close>
  An error thrown by \<^verbatim>\<open>res.setHeader\<close> is caught by the handler's \<^verbatim>\<open>catch\<close>, which answers
  on the same \<^verbatim>\<open>res\<close>: the headers set before the throw stay set.
\<close>

definition send_pdf :: "bytes \<Rightarrow> jsstring \<Rightarrow> jsstring \<Rightarrow> response" where
  "send_pdf buffer name now =
     (case setHeader (js ''Content-Type'') (HString (js ''application/pdf'')) [] of
        Inl err \<Rightarrow> generation_failed err now
      | Inr typed \<Rightarrow>
          (case setHeader (js ''Content-Disposition'')
                  (HString (js ''attachment; filename='' @ [dquote] @ name @ [dquote])) typed of
             Inl err \<Rightarrow> (generation_failed err now)\<lparr>res_headers := typed\<rparr>
           | Inr named \<Rightarrow>
               (case setHeader (js ''Content-Length'') (HNumber (length buffer)) named of
                  Inl err \<Rightarrow> (generation_failed err now)\<lparr>res_headers := named\<rparr>
                | Inr sized \<Rightarrow>
                    \<lparr>res_status = 200, res_headers = sized, res_body = Binary buffer\<rparr>)))"

definition invalid_url :: response where
  "invalid_url =
     \<lparr>res_status = 400, res_headers = [],
      res_body = Json [(js ''error'', JString (js ''Invalid URL format''))]\<rparr>"

definition url_required_post :: response where
  "url_required_post =
     \<lparr>res_status = 400, res_headers = [],
      res_body = Json [(js ''error'', JString (js ''URL is required'')),
                       (js ''example'',
                          JObject [(js ''url'', JString (js ''https://example.com'')),
                                   (js ''filename'', JString (js ''optional-name.pdf''))])]\<rparr>"

definition url_required_get :: response where
  "url_required_get =
     \<lparr>res_status = 400, res_headers = [],
      res_body = Json [(js ''error'', JString (js ''URL parameter is required'')),
                       (js ''example'',
                          JString (js ''/generate-pdf?url=https://example.com&filename=optional-name.pdf''))]\<rparr>"

text \<open>
  \<^verbatim>\<open>app.post('/generate-pdf', ...)\<close>, with \<^verbatim>\<open>const { url, filename, options = {} } = req.body\<close>.
  The result is the response and the calls made to the engine. An error thrown inside the
  handler's \<^verbatim>\<open>try\<close> is answered by its \<^verbatim>\<open>catch\<close>; the two \<^verbatim>\<open>console\<close> calls are left out.
\<close>

definition post_generate_pdf ::
  "(jsstring \<Rightarrow> error + 'u) \<Rightarrow> engine \<Rightarrow> jsstring \<Rightarrow> post_body \<Rightarrow> response \<times> event list" where
  "post_generate_pdf URL eng now body =
     (let url = body_url body;
          filename = body_filename body;
          options = (case body_options body of None \<Rightarrow> Map.empty | Some given \<Rightarrow> given)
      in if falsy url then (url_required_post, [])
         else (case isValidUrl URL (the url) of
                 Inl err \<Rightarrow> (generation_failed err now, [])
               | Inr False \<Rightarrow> (invalid_url, [])
               | Inr True \<Rightarrow>
                   (case generatePDF eng (the url) options of
                      (Inl err, s) \<Rightarrow> (generation_failed err now, trace s)
                    | (Inr buffer, s) \<Rightarrow>
                        (send_pdf buffer (pdfFilename filename (the url)) now, trace s))))"

text \<open>
  \<^verbatim>\<open>app.get('/generate-pdf', ...)\<close>, with \<^verbatim>\<open>const { url, filename } = req.query\<close>; the adapter is
  called as \<^verbatim>\<open>generatePDF(url)\<close>, so its \<^verbatim>\<open>options\<close> parameter takes its default \<^verbatim>\<open>{}\<close>.
\<close>

definition get_generate_pdf ::
  "(jsstring \<Rightarrow> error + 'u) \<Rightarrow> engine \<Rightarrow> jsstring \<Rightarrow> query \<Rightarrow> response \<times> event list" where
  "get_generate_pdf URL eng now q =
     (let url = q (js ''url'');
          filename = q (js ''filename'')
      in if falsy url then (url_required_get, [])
         else (case isValidUrl URL (the url) of
                 Inl err \<Rightarrow> (generation_failed err now, [])
               | Inr False \<Rightarrow> (invalid_url, [])
               | Inr True \<Rightarrow>
                   (case generatePDF eng (the url) Map.empty of
                      (Inl err, s) \<Rightarrow> (generation_failed err now, trace s)
                    | (Inr buffer, s) \<Rightarrow>
                        (send_pdf buffer (pdfFilename filename (the url)) now, trace s))))"

text \<open>\<^verbatim>\<open>String.prototype.includes\<close>: \<open>t\<close> occurs in \<open>s\<close>.\<close>

definition mentions :: "jsstring \<Rightarrow> jsstring \<Rightarrow> bool" where
  "mentions s t = sublist t s"

section \<open>Engines and requests to run the model on\<close>

text \<open>An engine whose every call resolves, exporting the buffer given.\<close>

definition steady_engine :: "bytes \<Rightarrow> engine" where
  "steady_engine buffer =
     \<lparr>launch = None, newPage = None, setViewport = None, setUserAgent = None,
      goto = (\<lambda>_. None), waitForTimeout = None, pdf = (\<lambda>_. Inr buffer),
      close = (\<lambda>_. None)\<rparr>"

text \<open>A URL constructor that accepts every string but the empty one.\<close>

definition lenient_URL :: "jsstring \<Rightarrow> error + unit" where
  "lenient_URL s = (if s = [] then Inl (Error (js ''Invalid URL'')) else Inr ())"

text \<open>An engine whose first \<^verbatim>\<open>browser.close()\<close> rejects, all else resolving.\<close>

definition close_rejecting_engine :: "bytes \<Rightarrow> engine" where
  "close_rejecting_engine buffer =
     (steady_engine buffer)
       \<lparr>close := (\<lambda>k. if k = 0 then Some (Error (js ''Protocol error'')) else None)\<rparr>"

text \<open>An engine whose navigation times out.\<close>

definition unreachable_engine :: engine where
  "unreachable_engine =
     (steady_engine [])\<lparr>goto := (\<lambda>_. Some (Error (js ''Navigation timeout'')))\<rparr>"

text \<open>An engine whose navigation times out and whose \<^verbatim>\<open>browser.close()\<close> rejects as well.\<close>

definition crashed_engine :: engine where
  "crashed_engine =
     unreachable_engine\<lparr>close := (\<lambda>_. Some (Error (js ''Protocol error'')))\<rparr>"

text \<open>The filename \<open>a\<close>, line feed, \<open>b\<close>.\<close>

definition two_line_name :: jsstring where
  "two_line_name = js ''a'' @ [0x0A] @ js ''b''"

text \<open>An engine that fails to launch.\<close>

definition launchless_engine :: engine where
  "launchless_engine =
     (steady_engine [])\<lparr>launch := Some (Error (js ''Failed to launch''))\<rparr>"

section \<open>Properties of the sanitizer\<close>

lemma alnum_unat:
  "alnum c \<longleftrightarrow>
     (48 \<le> unat c \<and> unat c \<le> 57) \<or> (65 \<le> unat c \<and> unat c \<le> 90) \<or>
     (97 \<le> unat c \<and> unat c \<le> 122)"
  by (simp add: alnum_def word_le_nat_alt)

lemma safe_unit_unat:
  "safe_unit c \<longleftrightarrow>
     (48 \<le> unat c \<and> unat c \<le> 57) \<or> (97 \<le> unat c \<and> unat c \<le> 122) \<or> unat c = 95"
  by (simp add: safe_unit_def word_le_nat_alt word_unat_eq_iff)

lemma unat_underscore_unless_alnum:
  "unat (underscore_unless_alnum c) = (if alnum c then unat c else 95)"
  by (simp add: underscore_unless_alnum_def)

lemma unat_lower_unit:
  "unat (lower_unit c) = (if 65 \<le> unat c \<and> unat c \<le> 90 then unat c + 32 else unat c)"
proof (cases "65 \<le> unat c \<and> unat c \<le> 90")
  case True
  then have "unat (c + 0x20) = unat c + 32"
    by (simp add: unat_word_ariths)
  with True show ?thesis
    by (simp add: lower_unit_def word_le_nat_alt)
next
  case False
  then show ?thesis
    by (auto simp: lower_unit_def word_le_nat_alt)
qed

lemma safe_lower_underscore: "safe_unit (lower_unit (underscore_unless_alnum c))"
  by (auto simp: safe_unit_unat unat_lower_unit unat_underscore_unless_alnum alnum_unat)

lemma safe_fixed: "safe_unit c \<Longrightarrow> lower_unit (underscore_unless_alnum c) = c"
  by (auto simp: word_unat_eq_iff safe_unit_unat unat_lower_unit
      unat_underscore_unless_alnum alnum_unat)

lemma safe_not_colon: "safe_unit c \<Longrightarrow> c \<noteq> 0x3A"
  by (auto simp: safe_unit_unat)

lemma sanitize_safe: "list_all safe_unit (sanitizeFilename s)"
  unfolding sanitizeFilename_def toLowerCase_def replace_nonalnum_def list_all_iff
  by (auto dest!: in_set_takeD simp: safe_lower_underscore)

lemma sanitize_length: "length (sanitizeFilename s) \<le> 50"
  by (simp add: sanitizeFilename_def)

lemma scheme_match_colon:
  assumes "scheme_match s = Some n"
  shows "0x3A \<in> set s"
proof -
  from assms have "prefix (js ''https://'') s \<or> prefix (js ''http://'') s"
    by (auto simp: scheme_match_def split: if_splits)
  then have "set (js ''https://'') \<subseteq> set s \<or> set (js ''http://'') \<subseteq> set s"
    by (auto dest: set_mono_prefix)
  then show ?thesis by (auto simp: js_def)
qed

lemma replace_scheme_no_colon: "0x3A \<notin> set s \<Longrightarrow> replace_scheme s = s"
proof (induction s)
  case Nil
  then show ?case by simp
next
  case (Cons c cs)
  then have "scheme_match (c # cs) = None"
    using scheme_match_colon [of "c # cs"] by (cases "scheme_match (c # cs)") auto
  with Cons show ?case by simp
qed

lemma scheme_match_Nil: "scheme_match [] = None"
  by (simp add: scheme_match_def js_def)

lemma replace_scheme_first:
  "scheme_match (drop i s) = Some n \<Longrightarrow> (\<forall>j<i. scheme_match (drop j s) = None) \<Longrightarrow>
   replace_scheme s = take i s @ drop (i + n) s"
proof (induction s arbitrary: i)
  case Nil
  then show ?case by (simp add: scheme_match_Nil)
next
  case (Cons c cs)
  show ?case
  proof (cases i)
    case 0
    with Cons.prems show ?thesis by simp
  next
    case (Suc k)
    with Cons.prems have here: "scheme_match (c # cs) = None"
      by (metis drop0 zero_less_Suc)
    from Suc Cons.prems have there: "scheme_match (drop k cs) = Some n"
      by simp
    have before: "\<forall>j<k. scheme_match (drop j cs) = None"
    proof (intro allI impI)
      fix j assume "j < k"
      then have "Suc j < i" using Suc by simp
      with Cons.prems(2) have "scheme_match (drop (Suc j) (c # cs)) = None" by blast
      then show "scheme_match (drop j cs) = None" by simp
    qed
    from Cons.IH [OF there before] here Suc show ?thesis by simp
  qed
qed

lemma replace_scheme_none:
  "(\<forall>j. scheme_match (drop j s) = None) \<Longrightarrow> replace_scheme s = s"
proof (induction s)
  case Nil
  then show ?case by simp
next
  case (Cons c cs)
  then have here: "scheme_match (c # cs) = None"
    by (metis drop0)
  have "\<forall>j. scheme_match (drop j cs) = None"
  proof
    fix j
    from Cons.prems have "scheme_match (drop (Suc j) (c # cs)) = None" by blast
    then show "scheme_match (drop j cs) = None" by simp
  qed
  with Cons.IH here show ?case by simp
qed

lemma replace_scheme_leading:
  "scheme_match s \<noteq> None \<Longrightarrow> replace_scheme s = strip_leading_scheme s"
  by (cases s) (auto simp: scheme_match_def strip_leading_scheme_def split: if_splits)

lemma strip_leading_none: "scheme_match s = None \<Longrightarrow> strip_leading_scheme s = s"
  by (auto simp: scheme_match_def strip_leading_scheme_def split: if_splits)

lemma scheme_match_none_no_colon: "0x3A \<notin> set s \<Longrightarrow> scheme_match (drop j s) = None"
proof (cases "scheme_match (drop j s)")
  case None
  then show ?thesis .
next
  case (Some n)
  assume "0x3A \<notin> set s"
  moreover from Some have "0x3A \<in> set (drop j s)" by (rule scheme_match_colon)
  ultimately show ?thesis by (auto dest: in_set_dropD)
qed

lemmas sanitize_eval =
  sanitizeFilename_def js_def scheme_match_def replace_nonalnum_def
  underscore_unless_alnum_def toLowerCase_def lower_unit_def alnum_def

text \<open>
  Claim C2, as the code has it. For every string \<open>s\<close>, \<open>sanitizeFilename s\<close> is the result
  of four steps: remove the first (leftmost) occurrence of \<open>http://\<close> or \<open>https://\<close>,
  wherever in \<open>s\<close> it starts; replace every code unit outside \<open>[a-zA-Z0-9]\<close> with an
  underscore; lowercase; keep the first 50 code units. When \<open>s\<close> starts with a scheme, or
  holds none, this is the algorithm of the specification, which strips a leading scheme.
  In particular \<open>https://Example.com/Path?q=1\<close> gives \<open>example_com_path_q_1\<close>.
\<close>

theorem sanitizeFilename_first_scheme:
  "(\<forall>i n. scheme_match (drop i s) = Some n \<and> (\<forall>j<i. scheme_match (drop j s) = None) \<longrightarrow>
      sanitizeFilename s =
        take 50 (toLowerCase (replace_nonalnum (take i s @ drop (i + n) s)))) \<and>
   ((\<forall>j. scheme_match (drop j s) = None) \<longrightarrow>
      sanitizeFilename s = take 50 (toLowerCase (replace_nonalnum s))) \<and>
   (scheme_match s \<noteq> None \<or> (\<forall>j. scheme_match (drop j s) = None) \<longrightarrow>
      sanitizeFilename s = spec_sanitizeFilename s) \<and>
   sanitizeFilename (js ''https://Example.com/Path?q=1'') = js ''example_com_path_q_1''"
proof (intro conjI allI impI)
  fix i n
  assume "scheme_match (drop i s) = Some n \<and> (\<forall>j<i. scheme_match (drop j s) = None)"
  then have "replace_scheme s = take i s @ drop (i + n) s"
    using replace_scheme_first by blast
  then show "sanitizeFilename s =
      take 50 (toLowerCase (replace_nonalnum (take i s @ drop (i + n) s)))"
    by (simp add: sanitizeFilename_def)
next
  assume "\<forall>j. scheme_match (drop j s) = None"
  then show "sanitizeFilename s = take 50 (toLowerCase (replace_nonalnum s))"
    by (simp add: sanitizeFilename_def replace_scheme_none)
next
  assume a: "scheme_match s \<noteq> None \<or> (\<forall>j. scheme_match (drop j s) = None)"
  show "sanitizeFilename s = spec_sanitizeFilename s"
  proof (cases "scheme_match s = None")
    case False
    then show ?thesis
      by (simp add: sanitizeFilename_def spec_sanitizeFilename_def replace_scheme_leading)
  next
    case True
    with a have "\<forall>j. scheme_match (drop j s) = None" by simp
    with True show ?thesis
      by (simp add: sanitizeFilename_def spec_sanitizeFilename_def replace_scheme_none
          strip_leading_none)
  qed
next
  show "sanitizeFilename (js ''https://Example.com/Path?q=1'') = js ''example_com_path_q_1''"
    by (simp add: sanitize_eval)
qed

text \<open>
  The theorem at \<open>ahttp://b\<close>, where the scheme starts at index 1 (seven code units are
  removed there and \<open>ab\<close> is left), at \<open>http://b\<close>, where it leads, and at
  \<open>Example.com\<close>, which holds none.
\<close>

theorem sanitizeFilename_first_scheme_witness:
  "scheme_match (drop 1 (js ''ahttp://b'')) = Some 7 \<and>
   scheme_match (drop 0 (js ''ahttp://b'')) = None \<and>
   sanitizeFilename (js ''ahttp://b'') = js ''ab'' \<and>
   scheme_match (js ''http://b'') \<noteq> None \<and>
   sanitizeFilename (js ''http://b'') = spec_sanitizeFilename (js ''http://b'') \<and>
   spec_sanitizeFilename (js ''http://b'') = js ''b'' \<and>
   (\<forall>j. scheme_match (drop j (js ''Example.com'')) = None) \<and>
   sanitizeFilename (js ''Example.com'') = js ''example_com''"
proof -
  let ?s = "js ''ahttp://b''"
  have at1: "scheme_match (drop 1 ?s) = Some 7"
    by (simp add: js_def scheme_match_def)
  have at0: "scheme_match (drop 0 ?s) = None"
    by (simp add: js_def scheme_match_def)
  have before: "\<forall>j<1. scheme_match (drop j ?s) = None"
    using at0 by simp
  have "sanitizeFilename ?s = take 50 (toLowerCase (replace_nonalnum (take 1 ?s @ drop (1 + 7) ?s)))"
    using sanitizeFilename_first_scheme [of ?s] at1 before by blast
  then have mid: "sanitizeFilename ?s = js ''ab''"
    by (simp add: sanitize_eval)
  have lead: "scheme_match (js ''http://b'') \<noteq> None"
    by (simp add: js_def scheme_match_def)
  have agree: "sanitizeFilename (js ''http://b'') = spec_sanitizeFilename (js ''http://b'')"
    using sanitizeFilename_first_scheme [of "js ''http://b''"] lead by blast
  have led: "spec_sanitizeFilename (js ''http://b'') = js ''b''"
    by (simp add: spec_sanitizeFilename_def strip_leading_scheme_def sanitize_eval)
  have "0x3A \<notin> set (js ''Example.com'')"
    by (simp add: js_def)
  then have none: "\<forall>j. scheme_match (drop j (js ''Example.com'')) = None"
    using scheme_match_none_no_colon by blast
  then have "sanitizeFilename (js ''Example.com'') =
      take 50 (toLowerCase (replace_nonalnum (js ''Example.com'')))"
    using sanitizeFilename_first_scheme [of "js ''Example.com''"] by blast
  then have bare: "sanitizeFilename (js ''Example.com'') = js ''example_com''"
    by (simp add: sanitize_eval)
  from at1 at0 mid lead agree led none bare show ?thesis by blast
qed

text \<open>
  Claim C2 as stated fails: in \<open>ftp://a/http://b\<close> the scheme \<open>http://\<close> does not lead, the
  specification's algorithm keeps it (\<open>ftp___a_http___b\<close>), and the code removes it
  (\<open>ftp___a_b\<close>).
\<close>

theorem sanitizeFilename_leading_counterexample:
  "sanitizeFilename (js ''ftp://a/http://b'') = js ''ftp___a_b'' \<and>
   spec_sanitizeFilename (js ''ftp://a/http://b'') = js ''ftp___a_http___b'' \<and>
   sanitizeFilename (js ''ftp://a/http://b'') \<noteq> spec_sanitizeFilename (js ''ftp://a/http://b'')"
  by (simp add: spec_sanitizeFilename_def strip_leading_scheme_def sanitize_eval)

text \<open>
  Claim C3. \<open>sanitizeFilename\<close> is a function of its argument alone, defined on every
  string; its result has at most 50 code units, each of them in \<open>[a-z0-9_]\<close>.
\<close>

theorem sanitizeFilename_safe:
  "length (sanitizeFilename s) \<le> 50 \<and> list_all safe_unit (sanitizeFilename s)"
  by (simp add: sanitize_length sanitize_safe)

text \<open>
  Claim C9. \<open>sanitizeFilename\<close> is idempotent: its result holds no colon, so no scheme,
  only code units of \<open>[a-z0-9_]\<close>, which the second and third step leave alone, and at
  most 50 of them.
\<close>

theorem sanitizeFilename_idempotent:
  "sanitizeFilename (sanitizeFilename s) = sanitizeFilename s"
proof -
  let ?t = "sanitizeFilename s"
  have safe: "list_all safe_unit ?t" by (rule sanitize_safe)
  then have "0x3A \<notin> set ?t"
    using safe_not_colon by (auto simp: list_all_iff)
  then have a: "replace_scheme ?t = ?t" by (rule replace_scheme_no_colon)
  have b: "map (\<lambda>c. lower_unit (underscore_unless_alnum c)) ?t = ?t"
    using safe by (intro map_idI) (auto simp: list_all_iff safe_fixed)
  have c: "length ?t \<le> 50" by (rule sanitize_length)
  have "sanitizeFilename ?t = take 50 (map (\<lambda>c. lower_unit (underscore_unless_alnum c)) ?t)"
    unfolding sanitizeFilename_def [of ?t] toLowerCase_def replace_nonalnum_def a
    by (simp add: comp_def)
  with b c show ?thesis by simp
qed

section \<open>Properties of the render adapter\<close>

lemmas run_defs =
  generatePDF_def try_block_def catch_block_def then_do_def try_catch_def await_def
  resolved_def close_browser_def assign_browser_def return_value_def throw_def closes_def

lemmas handler_defs =
  post_generate_pdf_def get_generate_pdf_def falsy_def isValidUrl_def lenient_URL_def

lemma closes_after_launch:
  "close eng 0 = None \<Longrightarrow> launch eng = None \<Longrightarrow> closes (generatePDF eng url options) = 1"
  by (simp add: run_defs split: option.splits sum.splits)

lemma closes_without_launch:
  "launch eng \<noteq> None \<Longrightarrow> closes (generatePDF eng url options) = 0"
  by (auto simp: run_defs split: option.splits sum.splits)

lemma try_block_error_propagates:
  "close eng 0 = None \<Longrightarrow>
   try_block eng url options \<lparr>browser = False, trace = []\<rparr> = (Inl err, s) \<Longrightarrow>
   fst (generatePDF eng url options) = Inl err"
  by (auto simp: run_defs split: option.splits sum.splits)

lemma post_failure:
  "body_url body = Some url \<Longrightarrow> url \<noteq> [] \<Longrightarrow> isValidUrl URL url = Inr True \<Longrightarrow>
   fst (generatePDF eng url (case body_options body of None \<Rightarrow> Map.empty | Some given \<Rightarrow> given))
     = Inl err \<Longrightarrow>
   fst (post_generate_pdf URL eng now body) = generation_failed err now"
  by (auto simp: post_generate_pdf_def falsy_def Let_def split: prod.splits sum.splits)

lemma get_failure:
  "q (js ''url'') = Some url \<Longrightarrow> url \<noteq> [] \<Longrightarrow> isValidUrl URL url = Inr True \<Longrightarrow>
   fst (generatePDF eng url Map.empty) = Inl err \<Longrightarrow>
   fst (get_generate_pdf URL eng now q) = generation_failed err now"
  by (auto simp: get_generate_pdf_def falsy_def Let_def split: prod.splits sum.splits)

text \<open>
  Claim C1, as the code has it. For every call \<open>generatePDF url options\<close>: when the
  browser was launched and \<^verbatim>\<open>browser.close()\<close> resolves, the browser is closed exactly once,
  whichever of the later steps rejects or none; when the launch fails, no close is
  attempted; when \<^verbatim>\<open>browser.close()\<close> resolves, the error thrown in the \<^verbatim>\<open>try\<close> block is the
  error \<open>generatePDF\<close> throws; and both handlers answer an error of \<open>generatePDF\<close> with
  status 500 and a JSON body of \<open>error\<close>, \<open>message\<close> (the error's) and \<open>timestamp\<close>.
\<close>

theorem generatePDF_closes_once:
  "(close eng 0 = None \<and> launch eng = None \<longrightarrow> closes (generatePDF eng url options) = 1) \<and>
   (launch eng \<noteq> None \<longrightarrow> closes (generatePDF eng url options) = 0) \<and>
   (close eng 0 = None \<longrightarrow>
      (\<forall>err s. try_block eng url options \<lparr>browser = False, trace = []\<rparr> = (Inl err, s) \<longrightarrow>
         fst (generatePDF eng url options) = Inl err)) \<and>
   (\<forall>err. body_url body = Some url \<and> url \<noteq> [] \<and> isValidUrl URL url = Inr True \<and>
      fst (generatePDF eng url
             (case body_options body of None \<Rightarrow> Map.empty | Some given \<Rightarrow> given)) = Inl err \<longrightarrow>
      fst (post_generate_pdf URL eng now body) =
        \<lparr>res_status = 500, res_headers = [],
         res_body = Json [(js ''error'', JString (js ''Failed to generate PDF'')),
                          (js ''message'', JString (message err)),
                          (js ''timestamp'', JString now)]\<rparr>) \<and>
   (\<forall>err. q (js ''url'') = Some url \<and> url \<noteq> [] \<and> isValidUrl URL url = Inr True \<and>
      fst (generatePDF eng url Map.empty) = Inl err \<longrightarrow>
      fst (get_generate_pdf URL eng now q) =
        \<lparr>res_status = 500, res_headers = [],
         res_body = Json [(js ''error'', JString (js ''Failed to generate PDF'')),
                          (js ''message'', JString (message err)),
                          (js ''timestamp'', JString now)]\<rparr>)"
proof (intro conjI allI impI)
  assume "close eng 0 = None \<and> launch eng = None"
  then show "closes (generatePDF eng url options) = 1"
    by (simp add: closes_after_launch)
next
  assume "launch eng \<noteq> None"
  then show "closes (generatePDF eng url options) = 0"
    by (rule closes_without_launch)
next
  fix err s
  assume "close eng 0 = None"
    and "try_block eng url options \<lparr>browser = False, trace = []\<rparr> = (Inl err, s)"
  then show "fst (generatePDF eng url options) = Inl err"
    by (rule try_block_error_propagates)
next
  fix err
  assume "body_url body = Some url \<and> url \<noteq> [] \<and> isValidUrl URL url = Inr True \<and>
      fst (generatePDF eng url
             (case body_options body of None \<Rightarrow> Map.empty | Some given \<Rightarrow> given)) = Inl err"
  then have "fst (post_generate_pdf URL eng now body) = generation_failed err now"
    using post_failure by blast
  then show "fst (post_generate_pdf URL eng now body) =
        \<lparr>res_status = 500, res_headers = [],
         res_body = Json [(js ''error'', JString (js ''Failed to generate PDF'')),
                          (js ''message'', JString (message err)),
                          (js ''timestamp'', JString now)]\<rparr>"
    by (simp add: generation_failed_def)
next
  fix err
  assume "q (js ''url'') = Some url \<and> url \<noteq> [] \<and> isValidUrl URL url = Inr True \<and>
      fst (generatePDF eng url Map.empty) = Inl err"
  then have "fst (get_generate_pdf URL eng now q) = generation_failed err now"
    using get_failure by blast
  then show "fst (get_generate_pdf URL eng now q) =
        \<lparr>res_status = 500, res_headers = [],
         res_body = Json [(js ''error'', JString (js ''Failed to generate PDF'')),
                          (js ''message'', JString (message err)),
                          (js ''timestamp'', JString now)]\<rparr>"
    by (simp add: generation_failed_def)
qed

text \<open>
  The theorem on an engine whose navigation times out, called through both handlers with
  \<open>https://example.com\<close>, and on an engine that fails to launch.
\<close>

theorem generatePDF_closes_once_witness:
  "close unreachable_engine 0 = None \<and> launch unreachable_engine = None \<and>
   closes (generatePDF unreachable_engine (js ''https://example.com'') Map.empty) = 1 \<and>
   fst (generatePDF unreachable_engine (js ''https://example.com'') Map.empty) =
     Inl (Error (js ''Navigation timeout'')) \<and>
   launch launchless_engine \<noteq> None \<and>
   closes (generatePDF launchless_engine (js ''https://example.com'') Map.empty) = 0 \<and>
   res_status (fst (post_generate_pdf lenient_URL unreachable_engine (js ''2026-01-01T00:00:00.000Z'')
      \<lparr>body_url = Some (js ''https://example.com''), body_filename = None,
       body_options = None\<rparr>)) = 500 \<and>
   res_status (fst (get_generate_pdf lenient_URL unreachable_engine (js ''2026-01-01T00:00:00.000Z'')
      [js ''url'' \<mapsto> js ''https://example.com''])) = 500"
proof -
  let ?u = "js ''https://example.com''"
  let ?now = "js ''2026-01-01T00:00:00.000Z''"
  let ?body = "\<lparr>body_url = Some ?u, body_filename = None, body_options = None\<rparr>"
  let ?q = "[js ''url'' \<mapsto> ?u]"
  let ?err = "Error (js ''Navigation timeout'')"
  note inst = generatePDF_closes_once [of unreachable_engine ?u Map.empty ?body lenient_URL ?now ?q]
  note inst' = generatePDF_closes_once [of launchless_engine ?u Map.empty ?body lenient_URL ?now ?q]
  have c: "close unreachable_engine 0 = None" and l: "launch unreachable_engine = None"
    by (simp_all add: unreachable_engine_def steady_engine_def)
  have l': "launch launchless_engine \<noteq> None"
    by (simp add: launchless_engine_def)
  have nonempty: "?u \<noteq> []" by (simp add: js_def)
  have valid: "isValidUrl lenient_URL ?u = Inr True"
    by (simp add: isValidUrl_def lenient_URL_def js_def)
  have tb: "try_block unreachable_engine ?u Map.empty \<lparr>browser = False, trace = []\<rparr> =
      (Inl ?err, \<lparr>browser = True,
         trace = [Launch, NewPage, SetViewport 1920 1080, SetUserAgent, Goto ?u 30000]\<rparr>)"
    by (simp add: run_defs unreachable_engine_def steady_engine_def)
  from inst c l have once: "closes (generatePDF unreachable_engine ?u Map.empty) = 1"
    by blast
  from inst c tb have failed: "fst (generatePDF unreachable_engine ?u Map.empty) = Inl ?err"
    by blast
  from inst' l' have none: "closes (generatePDF launchless_engine ?u Map.empty) = 0"
    by blast
  have "body_url ?body = Some ?u" and opts: "(case body_options ?body of None \<Rightarrow> Map.empty | Some given \<Rightarrow> given) = Map.empty"
    by simp_all
  with inst nonempty valid failed
  have "fst (post_generate_pdf lenient_URL unreachable_engine ?now ?body) =
        \<lparr>res_status = 500, res_headers = [],
         res_body = Json [(js ''error'', JString (js ''Failed to generate PDF'')),
                          (js ''message'', JString (message ?err)),
                          (js ''timestamp'', JString ?now)]\<rparr>"
    by presburger
  then have p: "res_status (fst (post_generate_pdf lenient_URL unreachable_engine ?now ?body)) = 500"
    by simp
  have "?q (js ''url'') = Some ?u" by simp
  with inst nonempty valid failed
  have "fst (get_generate_pdf lenient_URL unreachable_engine ?now ?q) =
        \<lparr>res_status = 500, res_headers = [],
         res_body = Json [(js ''error'', JString (js ''Failed to generate PDF'')),
                          (js ''message'', JString (message ?err)),
                          (js ''timestamp'', JString ?now)]\<rparr>"
    by presburger
  then have g: "res_status (fst (get_generate_pdf lenient_URL unreachable_engine ?now ?q)) = 500"
    by simp
  from c l once failed l' none p g show ?thesis by blast
qed

text \<open>
  Claim C1 as stated fails where \<^verbatim>\<open>browser.close()\<close> itself rejects. After a successful
  export the rejection of the close in the \<^verbatim>\<open>try\<close> block enters the \<^verbatim>\<open>catch\<close> block, which
  closes again: two calls. After a navigation timeout the rejection of the close in the
  \<^verbatim>\<open>catch\<close> block replaces the navigation error.
\<close>

theorem generatePDF_close_rejects_counterexample:
  "launch (close_rejecting_engine [37]) = None \<and>
   pdf (close_rejecting_engine [37]) (pdfOptions Map.empty) = Inr [37] \<and>
   closes (generatePDF (close_rejecting_engine [37]) (js ''https://example.com'') Map.empty) = 2 \<and>
   goto crashed_engine (js ''https://example.com'') = Some (Error (js ''Navigation timeout'')) \<and>
   fst (generatePDF crashed_engine (js ''https://example.com'') Map.empty) =
     Inl (Error (js ''Protocol error'')) \<and>
   js ''Protocol error'' \<noteq> js ''Navigation timeout''"
  by (simp add: run_defs close_rejecting_engine_def crashed_engine_def unreachable_engine_def
      steady_engine_def js_def)

lemma pdf_event_options:
  "Pdf opts \<in> set (trace (snd (generatePDF eng url options))) \<Longrightarrow> opts = pdfOptions options"
  by (auto simp: run_defs split: option.splits sum.splits if_splits)

lemma pdf_event_reached:
  "launch eng = None \<Longrightarrow> newPage eng = None \<Longrightarrow> setViewport eng = None \<Longrightarrow>
   setUserAgent eng = None \<Longrightarrow> goto eng url = None \<Longrightarrow> waitForTimeout eng = None \<Longrightarrow>
   Pdf (pdfOptions options) \<in> set (trace (snd (generatePDF eng url options)))"
  by (auto simp: run_defs split: option.splits sum.splits)

lemma pdfOptions_empty: "pdfOptions Map.empty = default_pdf_options"
  by (simp add: pdfOptions_def)

text \<open>
  Claim C4. The options given to \<^verbatim>\<open>page.pdf\<close> are the defaults overridden, key by key, by
  the caller's mapping: a key the caller gives has the caller's value, whether the
  defaults know the key or not; a key the caller does not give has its default. The
  defaults are format \<open>A4\<close>, \<open>printBackground\<close> true, a margin of \<open>20px\<close> on four sides, a
  header template that is an empty \<open>div\<close>, and a footer template with the \<open>pageNumber\<close> and
  \<open>totalPages\<close> spans. Whenever \<open>generatePDF\<close> calls \<^verbatim>\<open>page.pdf\<close>, it is with these merged
  options, and it does call it when every step before resolves.
\<close>

theorem pdfOptions_merge:
  "(\<forall>k v. options k = Some v \<longrightarrow> pdfOptions options k = Some v) \<and>
   (\<forall>k. options k = None \<longrightarrow> pdfOptions options k = default_pdf_options k) \<and>
   default_pdf_options (js ''format'') = Some (JString (js ''A4'')) \<and>
   default_pdf_options (js ''printBackground'') = Some (JBool True) \<and>
   default_pdf_options (js ''margin'') =
     Some (JObject [(js ''top'', JString (js ''20px'')), (js ''right'', JString (js ''20px'')),
                    (js ''bottom'', JString (js ''20px'')), (js ''left'', JString (js ''20px''))]) \<and>
   default_pdf_options (js ''headerTemplate'') =
     Some (JString (js ''<div style='' @ [dquote] @ js ''font-size: 10px; margin: auto;'' @
                    [dquote] @ js ''></div>'')) \<and>
   default_pdf_options (js ''footerTemplate'') = Some (JString default_footerTemplate) \<and>
   mentions default_footerTemplate
     (js ''<span class='' @ [dquote] @ js ''pageNumber'' @ [dquote] @ js ''></span> / <span class='' @
      [dquote] @ js ''totalPages'' @ [dquote] @ js ''></span>'') \<and>
   (\<forall>opts. Pdf opts \<in> set (trace (snd (generatePDF eng url options))) \<longrightarrow>
      opts = pdfOptions options) \<and>
   (launch eng = None \<and> newPage eng = None \<and> setViewport eng = None \<and>
    setUserAgent eng = None \<and> goto eng url = None \<and> waitForTimeout eng = None \<longrightarrow>
      Pdf (pdfOptions options) \<in> set (trace (snd (generatePDF eng url options))))"
proof (intro conjI allI impI)
  fix k v assume "options k = Some v"
  then show "pdfOptions options k = Some v"
    by (simp add: pdfOptions_def)
next
  fix k assume "options k = None"
  then show "pdfOptions options k = default_pdf_options k"
    by (simp add: pdfOptions_def map_add_def)
next
  show "default_pdf_options (js ''format'') = Some (JString (js ''A4''))"
    by (simp add: default_pdf_options_def js_def)
next
  show "default_pdf_options (js ''printBackground'') = Some (JBool True)"
    by (simp add: default_pdf_options_def js_def)
next
  show "default_pdf_options (js ''margin'') =
     Some (JObject [(js ''top'', JString (js ''20px'')), (js ''right'', JString (js ''20px'')),
                    (js ''bottom'', JString (js ''20px'')), (js ''left'', JString (js ''20px''))])"
    by (simp add: default_pdf_options_def default_margin_def js_def)
next
  show "default_pdf_options (js ''headerTemplate'') =
     Some (JString (js ''<div style='' @ [dquote] @ js ''font-size: 10px; margin: auto;'' @
                    [dquote] @ js ''></div>''))"
    by (simp add: default_pdf_options_def default_headerTemplate_def js_def)
next
  show "default_pdf_options (js ''footerTemplate'') = Some (JString default_footerTemplate)"
    by (simp add: default_pdf_options_def js_def)
next
  have "default_footerTemplate =
      (js ''<div style='' @ [dquote] @ js ''font-size: 10px; margin: auto; color: #666;'' @
       [dquote] @ js ''>'') @
      (js ''<span class='' @ [dquote] @ js ''pageNumber'' @ [dquote] @ js ''></span> / <span class='' @
       [dquote] @ js ''totalPages'' @ [dquote] @ js ''></span>'') @ js ''</div>''"
    by (simp add: default_footerTemplate_def js_def)
  then show "mentions default_footerTemplate
     (js ''<span class='' @ [dquote] @ js ''pageNumber'' @ [dquote] @ js ''></span> / <span class='' @
      [dquote] @ js ''totalPages'' @ [dquote] @ js ''></span>'')"
    unfolding mentions_def sublist_def by blast
next
  fix opts assume "Pdf opts \<in> set (trace (snd (generatePDF eng url options)))"
  then show "opts = pdfOptions options" by (rule pdf_event_options)
next
  assume "launch eng = None \<and> newPage eng = None \<and> setViewport eng = None \<and>
    setUserAgent eng = None \<and> goto eng url = None \<and> waitForTimeout eng = None"
  then show "Pdf (pdfOptions options) \<in> set (trace (snd (generatePDF eng url options)))"
    by (simp add: pdf_event_reached)
qed

text \<open>
  The theorem at the options \<open>{format: 'A3', landscape: true}\<close> on an engine whose calls
  all resolve: \<open>format\<close> is the caller's, \<open>landscape\<close>, which has no default, is passed on,
  and \<open>printBackground\<close> keeps its default.
\<close>

theorem pdfOptions_merge_witness:
  "pdfOptions [js ''format'' \<mapsto> JString (js ''A3''), js ''landscape'' \<mapsto> JBool True]
     (js ''format'') = Some (JString (js ''A3'')) \<and>
   pdfOptions [js ''format'' \<mapsto> JString (js ''A3''), js ''landscape'' \<mapsto> JBool True]
     (js ''landscape'') = Some (JBool True) \<and>
   default_pdf_options (js ''landscape'') = None \<and>
   pdfOptions [js ''format'' \<mapsto> JString (js ''A3''), js ''landscape'' \<mapsto> JBool True]
     (js ''printBackground'') = Some (JBool True) \<and>
   Pdf (pdfOptions [js ''format'' \<mapsto> JString (js ''A3''), js ''landscape'' \<mapsto> JBool True])
     \<in> set (trace (snd (generatePDF (steady_engine [37]) (js ''https://example.com'')
          [js ''format'' \<mapsto> JString (js ''A3''), js ''landscape'' \<mapsto> JBool True])))"
proof -
  let ?o = "[js ''format'' \<mapsto> JString (js ''A3''), js ''landscape'' \<mapsto> JBool True]"
  let ?u = "js ''https://example.com''"
  note inst = pdfOptions_merge [of ?o "steady_engine [37]" ?u]
  have f: "?o (js ''format'') = Some (JString (js ''A3''))"
    by (simp add: js_def)
  have l: "?o (js ''landscape'') = Some (JBool True)"
    by (simp add: js_def)
  have p: "?o (js ''printBackground'') = None"
    by (simp add: js_def)
  have d: "default_pdf_options (js ''landscape'') = None"
    by (simp add: default_pdf_options_def js_def)
  have steps: "launch (steady_engine [37]) = None \<and> newPage (steady_engine [37]) = None \<and>
      setViewport (steady_engine [37]) = None \<and> setUserAgent (steady_engine [37]) = None \<and>
      goto (steady_engine [37]) ?u = None \<and> waitForTimeout (steady_engine [37]) = None"
    by (simp add: steady_engine_def)
  from inst f have 1: "pdfOptions ?o (js ''format'') = Some (JString (js ''A3''))" by blast
  from inst l have 2: "pdfOptions ?o (js ''landscape'') = Some (JBool True)" by blast
  from inst p have "pdfOptions ?o (js ''printBackground'') = default_pdf_options (js ''printBackground'')"
    by blast
  with inst have 3: "pdfOptions ?o (js ''printBackground'') = Some (JBool True)" by simp
  from inst steps
  have 4: "Pdf (pdfOptions ?o) \<in> set (trace (snd (generatePDF (steady_engine [37]) ?u ?o)))"
    by blast
  from 1 2 d 3 4 show ?thesis by blast
qed

lemma get_trace:
  "snd (get_generate_pdf URL eng now q) = [] \<or>
   (\<exists>url. q (js ''url'') = Some url \<and>
      snd (get_generate_pdf URL eng now q) = trace (snd (generatePDF eng url Map.empty)))"
  by (auto simp: get_generate_pdf_def Let_def falsy_def split: option.splits sum.splits prod.splits bool.splits)

lemma get_trace_url:
  "q1 (js ''url'') = q2 (js ''url'') \<Longrightarrow>
   snd (get_generate_pdf URL eng now q1) = snd (get_generate_pdf URL eng now q2)"
  by (simp add: get_generate_pdf_def Let_def split: option.splits sum.splits prod.splits bool.splits)

text \<open>
  Claim C5. The calls a GET request makes to the engine depend on its \<open>url\<close> parameter
  alone: two requests with the same \<open>url\<close> make the same calls, whatever their other
  query parameters; the adapter, when called, is called with the empty options; and every
  \<^verbatim>\<open>page.pdf\<close> call of the GET path carries the defaults.
\<close>

theorem get_ignores_query_options:
  "(q1 (js ''url'') = q2 (js ''url'') \<longrightarrow>
      snd (get_generate_pdf URL eng now q1) = snd (get_generate_pdf URL eng now q2)) \<and>
   (snd (get_generate_pdf URL eng now q) = [] \<or>
    (\<exists>url. q (js ''url'') = Some url \<and>
       snd (get_generate_pdf URL eng now q) = trace (snd (generatePDF eng url Map.empty)))) \<and>
   (\<forall>opts. Pdf opts \<in> set (snd (get_generate_pdf URL eng now q)) \<longrightarrow>
      opts = default_pdf_options)"
proof (intro conjI allI impI)
  assume "q1 (js ''url'') = q2 (js ''url'')"
  then show "snd (get_generate_pdf URL eng now q1) = snd (get_generate_pdf URL eng now q2)"
    by (rule get_trace_url)
next
  show "snd (get_generate_pdf URL eng now q) = [] \<or>
    (\<exists>url. q (js ''url'') = Some url \<and>
       snd (get_generate_pdf URL eng now q) = trace (snd (generatePDF eng url Map.empty)))"
    by (rule get_trace)
next
  fix opts assume a: "Pdf opts \<in> set (snd (get_generate_pdf URL eng now q))"
  from get_trace [of URL eng now q] a obtain url
    where "snd (get_generate_pdf URL eng now q) = trace (snd (generatePDF eng url Map.empty))"
    by auto
  with a have "opts = pdfOptions Map.empty"
    using pdf_event_options by metis
  then show "opts = default_pdf_options"
    by (simp add: pdfOptions_empty)
qed

text \<open>
  The theorem at two GET requests for \<open>https://example.com\<close>, one with \<open>format=A3\<close> and one
  with \<open>landscape=true\<close> and a filename, on an engine whose calls all resolve: the same
  calls, with the default options.
\<close>

theorem get_ignores_query_options_witness:
  "[js ''url'' \<mapsto> js ''https://example.com'', js ''format'' \<mapsto> js ''A3''] (js ''url'') =
   [js ''url'' \<mapsto> js ''https://example.com'', js ''landscape'' \<mapsto> js ''true'',
    js ''filename'' \<mapsto> js ''x.pdf''] (js ''url'') \<and>
   snd (get_generate_pdf lenient_URL (steady_engine [37]) (js ''2026-01-01T00:00:00.000Z'')
     [js ''url'' \<mapsto> js ''https://example.com'', js ''format'' \<mapsto> js ''A3'']) =
   snd (get_generate_pdf lenient_URL (steady_engine [37]) (js ''2026-01-01T00:00:00.000Z'')
     [js ''url'' \<mapsto> js ''https://example.com'', js ''landscape'' \<mapsto> js ''true'',
      js ''filename'' \<mapsto> js ''x.pdf'']) \<and>
   Pdf default_pdf_options \<in>
     set (snd (get_generate_pdf lenient_URL (steady_engine [37]) (js ''2026-01-01T00:00:00.000Z'')
       [js ''url'' \<mapsto> js ''https://example.com'', js ''format'' \<mapsto> js ''A3'']))"
proof -
  let ?u = "js ''https://example.com''"
  let ?now = "js ''2026-01-01T00:00:00.000Z''"
  let ?q1 = "[js ''url'' \<mapsto> ?u, js ''format'' \<mapsto> js ''A3'']"
  let ?q2 = "[js ''url'' \<mapsto> ?u, js ''landscape'' \<mapsto> js ''true'', js ''filename'' \<mapsto> js ''x.pdf'']"
  let ?run = "snd (get_generate_pdf lenient_URL (steady_engine [37]) ?now ?q1)"
  note inst = get_ignores_query_options [of ?q1 ?q2 lenient_URL "steady_engine [37]" ?now ?q1]
  have same: "?q1 (js ''url'') = ?q2 (js ''url'')"
    by (simp add: js_def)
  with inst have traces: "?run =
      snd (get_generate_pdf lenient_URL (steady_engine [37]) ?now ?q2)"
    by blast
  have "\<exists>opts. Pdf opts \<in> set ?run"
    by (simp add: handler_defs run_defs steady_engine_def js_def)
  then obtain opts where here: "Pdf opts \<in> set ?run" by blast
  with inst have "opts = default_pdf_options" by blast
  with here have "Pdf default_pdf_options \<in> set ?run" by simp
  with same traces show ?thesis by blast
qed

text \<open>
  Claim C6. For every string, \<open>isValidUrl\<close> returns; it never throws; it returns true
  exactly when the \<^verbatim>\<open>URL\<close> constructor accepts the string, and false exactly when the
  constructor throws.
\<close>

theorem isValidUrl_total:
  "(\<exists>b. isValidUrl URL s = Inr b) \<and>
   (isValidUrl URL s = Inr True \<longleftrightarrow> (\<exists>u. URL s = Inr u)) \<and>
   (isValidUrl URL s = Inr False \<longleftrightarrow> (\<exists>e. URL s = Inl e))"
  by (cases "URL s") (auto simp: isValidUrl_def)

section \<open>Properties of the endpoint layer\<close>

lemma post_missing:
  "falsy (body_url body) \<Longrightarrow> post_generate_pdf URL eng now body = (url_required_post, [])"
  by (simp add: post_generate_pdf_def Let_def)

lemma get_missing:
  "falsy (q (js ''url'')) \<Longrightarrow> get_generate_pdf URL eng now q = (url_required_get, [])"
  by (simp add: get_generate_pdf_def Let_def)

lemma post_invalid:
  "body_url body = Some url \<Longrightarrow> url \<noteq> [] \<Longrightarrow> isValidUrl URL url = Inr False \<Longrightarrow>
   post_generate_pdf URL eng now body = (invalid_url, [])"
  by (simp add: post_generate_pdf_def Let_def falsy_def)

lemma get_invalid:
  "q (js ''url'') = Some url \<Longrightarrow> url \<noteq> [] \<Longrightarrow> isValidUrl URL url = Inr False \<Longrightarrow>
   get_generate_pdf URL eng now q = (invalid_url, [])"
  by (simp add: get_generate_pdf_def Let_def falsy_def)

lemma post_success:
  "body_url body = Some url \<Longrightarrow> url \<noteq> [] \<Longrightarrow> isValidUrl URL url = Inr True \<Longrightarrow>
   generatePDF eng url (case body_options body of None \<Rightarrow> Map.empty | Some given \<Rightarrow> given)
     = (Inr buffer, s) \<Longrightarrow>
   fst (post_generate_pdf URL eng now body) =
     send_pdf buffer (pdfFilename (body_filename body) url) now"
  by (simp add: post_generate_pdf_def Let_def falsy_def)

lemma get_success:
  "q (js ''url'') = Some url \<Longrightarrow> url \<noteq> [] \<Longrightarrow> isValidUrl URL url = Inr True \<Longrightarrow>
   generatePDF eng url Map.empty = (Inr buffer, s) \<Longrightarrow>
   fst (get_generate_pdf URL eng now q) =
     send_pdf buffer (pdfFilename (q (js ''filename'')) url) now"
  by (simp add: get_generate_pdf_def Let_def falsy_def)

lemma valid_header_unit_unat:
  "valid_header_unit c \<longleftrightarrow>
     unat c = 9 \<or> (32 \<le> unat c \<and> unat c \<le> 126) \<or> (128 \<le> unat c \<and> unat c \<le> 255)"
  by (simp add: valid_header_unit_def word_le_nat_alt word_unat_eq_iff)

lemma safe_unit_valid_header: "safe_unit c \<Longrightarrow> valid_header_unit c"
  by (auto simp: safe_unit_unat valid_header_unit_unat)

lemma disposition_valid:
  "list_all valid_header_unit (js ''attachment; filename='' @ [dquote] @ name @ [dquote]) \<longleftrightarrow>
     list_all valid_header_unit name"
  by (simp add: js_def dquote_def valid_header_unit_def)

lemma fallback_valid: "list_all valid_header_unit (sanitizeFilename url @ js ''.pdf'')"
proof -
  have "list_all valid_header_unit (sanitizeFilename url)"
    using sanitize_safe [of url] safe_unit_valid_header by (auto simp: list_all_iff)
  moreover have "list_all valid_header_unit (js ''.pdf'')"
    by (simp add: js_def valid_header_unit_def)
  ultimately show ?thesis by simp
qed

lemma content_type_set:
  "setHeader (js ''Content-Type'') (HString (js ''application/pdf'')) [] =
     Inr [(js ''Content-Type'', HString (js ''application/pdf''))]"
  by (simp add: setHeader_def valid_header_value_def js_def valid_header_unit_def)

lemma disposition_value_valid:
  "valid_header_value (HString (js ''attachment; filename='' @ [dquote] @ name @ [dquote])) \<longleftrightarrow>
     list_all valid_header_unit name"
  unfolding valid_header_value_def header_value.case by (rule disposition_valid)

lemma length_value_valid: "valid_header_value (HNumber n)"
  by (simp add: valid_header_value_def)

lemma send_pdf_accepted:
  "list_all valid_header_unit name \<Longrightarrow>
   send_pdf buffer name now =
     \<lparr>res_status = 200,
      res_headers =
        [(js ''Content-Type'', HString (js ''application/pdf'')),
         (js ''Content-Disposition'',
            HString (js ''attachment; filename='' @ [dquote] @ name @ [dquote])),
         (js ''Content-Length'', HNumber (length buffer))],
      res_body = Binary buffer\<rparr>"
  unfolding send_pdf_def content_type_set
  unfolding setHeader_def disposition_value_valid
  by (simp add: length_value_valid)

lemma send_pdf_refused:
  "\<not> list_all valid_header_unit name \<Longrightarrow>
   send_pdf buffer name now =
     \<lparr>res_status = 500,
      res_headers = [(js ''Content-Type'', HString (js ''application/pdf''))],
      res_body = Json [(js ''error'', JString (js ''Failed to generate PDF'')),
                       (js ''message'',
                          JString (js ''Invalid character in header content ['' @ [dquote] @
                                   js ''Content-Disposition'' @ [dquote] @ js '']'')),
                       (js ''timestamp'', JString now)]\<rparr>"
  unfolding send_pdf_def content_type_set
  unfolding setHeader_def disposition_value_valid
  by (simp add: generation_failed_def)

lemma content_disposition_send_pdf:
  "list_all valid_header_unit name \<Longrightarrow>
   map_of (res_headers (send_pdf buffer name now)) (js ''Content-Disposition'') =
     Some (HString (js ''attachment; filename='' @ [dquote] @ name @ [dquote]))"
  by (simp add: send_pdf_accepted) (simp add: js_def)

lemma content_disposition_refused:
  "\<not> list_all valid_header_unit name \<Longrightarrow>
   res_status (send_pdf buffer name now) = 500 \<and>
   map_of (res_headers (send_pdf buffer name now)) (js ''Content-Disposition'') = None"
  by (simp add: send_pdf_refused) (simp add: js_def)

lemma two_line_name_refused:
  "two_line_name \<noteq> [] \<and> \<not> list_all valid_header_unit two_line_name"
  by (simp add: two_line_name_def js_def valid_header_unit_def)

lemma example_name_valid: "list_all valid_header_unit (js ''example_com.pdf'')"
  by (simp add: js_def valid_header_unit_def)

lemma steady_run:
  "generatePDF (steady_engine buffer) url options =
     (Inr buffer,
      \<lparr>browser = True,
       trace = [Launch, NewPage, SetViewport 1920 1080, SetUserAgent, Goto url 30000,
                WaitForTimeout 2000, Pdf (pdfOptions options), Close]\<rparr>)"
  by (simp add: run_defs steady_engine_def)

lemma lenient_example: "isValidUrl lenient_URL (js ''https://example.com'') = Inr True"
  by (simp add: isValidUrl_def lenient_URL_def js_def)

lemma sanitize_example: "sanitizeFilename (js ''https://example.com'') = js ''example_com''"
  by (simp add: sanitize_eval)

text \<open>
  Claim C7, as the code has it. On both routes a request whose \<open>url\<close> is missing or the
  empty string is answered 400 with no call to the engine, the error being
  \<open>URL is required\<close> on POST and \<open>URL parameter is required\<close> on GET; a request whose
  \<open>url\<close> is a non-empty string that \<open>isValidUrl\<close> rejects is answered 400 with the error
  \<open>Invalid URL format\<close>, again with no call to the engine.
\<close>

theorem validation_before_render:
  "(falsy (body_url body) \<longrightarrow>
      post_generate_pdf URL eng now body =
        (\<lparr>res_status = 400, res_headers = [],
          res_body = Json [(js ''error'', JString (js ''URL is required'')),
                           (js ''example'',
                              JObject [(js ''url'', JString (js ''https://example.com'')),
                                       (js ''filename'', JString (js ''optional-name.pdf''))])]\<rparr>,
         [])) \<and>
   (\<forall>url. body_url body = Some url \<and> url \<noteq> [] \<and> isValidUrl URL url = Inr False \<longrightarrow>
      post_generate_pdf URL eng now body =
        (\<lparr>res_status = 400, res_headers = [],
          res_body = Json [(js ''error'', JString (js ''Invalid URL format''))]\<rparr>, [])) \<and>
   (falsy (q (js ''url'')) \<longrightarrow>
      get_generate_pdf URL eng now q =
        (\<lparr>res_status = 400, res_headers = [],
          res_body = Json [(js ''error'', JString (js ''URL parameter is required'')),
                           (js ''example'',
                              JString (js ''/generate-pdf?url=https://example.com&filename=optional-name.pdf''))]\<rparr>,
         [])) \<and>
   (\<forall>url. q (js ''url'') = Some url \<and> url \<noteq> [] \<and> isValidUrl URL url = Inr False \<longrightarrow>
      get_generate_pdf URL eng now q =
        (\<lparr>res_status = 400, res_headers = [],
          res_body = Json [(js ''error'', JString (js ''Invalid URL format''))]\<rparr>, []))"
proof (intro conjI allI impI)
  assume "falsy (body_url body)"
  then show "post_generate_pdf URL eng now body =
        (\<lparr>res_status = 400, res_headers = [],
          res_body = Json [(js ''error'', JString (js ''URL is required'')),
                           (js ''example'',
                              JObject [(js ''url'', JString (js ''https://example.com'')),
                                       (js ''filename'', JString (js ''optional-name.pdf''))])]\<rparr>,
         [])"
    by (simp add: post_missing url_required_post_def)
next
  fix url
  assume "body_url body = Some url \<and> url \<noteq> [] \<and> isValidUrl URL url = Inr False"
  then show "post_generate_pdf URL eng now body =
        (\<lparr>res_status = 400, res_headers = [],
          res_body = Json [(js ''error'', JString (js ''Invalid URL format''))]\<rparr>, [])"
    by (simp add: post_invalid invalid_url_def)
next
  assume "falsy (q (js ''url''))"
  then show "get_generate_pdf URL eng now q =
        (\<lparr>res_status = 400, res_headers = [],
          res_body = Json [(js ''error'', JString (js ''URL parameter is required'')),
                           (js ''example'',
                              JString (js ''/generate-pdf?url=https://example.com&filename=optional-name.pdf''))]\<rparr>,
         [])"
    by (simp add: get_missing url_required_get_def)
next
  fix url
  assume "q (js ''url'') = Some url \<and> url \<noteq> [] \<and> isValidUrl URL url = Inr False"
  then show "get_generate_pdf URL eng now q =
        (\<lparr>res_status = 400, res_headers = [],
          res_body = Json [(js ''error'', JString (js ''Invalid URL format''))]\<rparr>, [])"
    by (simp add: get_invalid invalid_url_def)
qed

text \<open>
  The theorem at a POST body \<open>{}\<close> and an empty GET query, and at the URL \<open>x\<close> with a
  constructor that rejects every string.
\<close>

theorem validation_before_render_witness:
  "falsy (body_url \<lparr>body_url = None, body_filename = None, body_options = None\<rparr>) \<and>
   res_status (fst (post_generate_pdf (\<lambda>s. Inl (Error (js ''Invalid URL'')) :: error + unit)
      (steady_engine [37]) (js ''2026-01-01T00:00:00.000Z'')
      \<lparr>body_url = None, body_filename = None, body_options = None\<rparr>)) = 400 \<and>
   snd (post_generate_pdf (\<lambda>s. Inl (Error (js ''Invalid URL'')) :: error + unit)
      (steady_engine [37]) (js ''2026-01-01T00:00:00.000Z'')
      \<lparr>body_url = None, body_filename = None, body_options = None\<rparr>) = [] \<and>
   falsy (Map.empty (js ''url'') :: jsstring option) \<and>
   snd (get_generate_pdf (\<lambda>s. Inl (Error (js ''Invalid URL'')) :: error + unit)
      (steady_engine [37]) (js ''2026-01-01T00:00:00.000Z'') Map.empty) = [] \<and>
   isValidUrl (\<lambda>s. Inl (Error (js ''Invalid URL'')) :: error + unit) (js ''x'') = Inr False \<and>
   post_generate_pdf (\<lambda>s. Inl (Error (js ''Invalid URL'')) :: error + unit)
      (steady_engine [37]) (js ''2026-01-01T00:00:00.000Z'')
      \<lparr>body_url = Some (js ''x''), body_filename = None, body_options = None\<rparr> =
     (\<lparr>res_status = 400, res_headers = [],
       res_body = Json [(js ''error'', JString (js ''Invalid URL format''))]\<rparr>, []) \<and>
   get_generate_pdf (\<lambda>s. Inl (Error (js ''Invalid URL'')) :: error + unit)
      (steady_engine [37]) (js ''2026-01-01T00:00:00.000Z'') [js ''url'' \<mapsto> js ''x''] =
     (\<lparr>res_status = 400, res_headers = [],
       res_body = Json [(js ''error'', JString (js ''Invalid URL format''))]\<rparr>, [])"
proof -
  let ?URL = "\<lambda>s. Inl (Error (js ''Invalid URL'')) :: error + unit"
  let ?now = "js ''2026-01-01T00:00:00.000Z''"
  let ?none = "\<lparr>body_url = None, body_filename = None, body_options = None\<rparr>"
  let ?bad = "\<lparr>body_url = Some (js ''x''), body_filename = None, body_options = None\<rparr>"
  let ?q = "[js ''url'' \<mapsto> js ''x'']"
  note missing = validation_before_render [of ?none ?URL "steady_engine [37]" ?now Map.empty]
  note invalid = validation_before_render [of ?bad ?URL "steady_engine [37]" ?now ?q]
  have f1: "falsy (body_url ?none)" by (simp add: falsy_def)
  have f2: "falsy (Map.empty (js ''url'') :: jsstring option)" by (simp add: falsy_def)
  have x: "js ''x'' \<noteq> []" by (simp add: js_def)
  have rejected: "isValidUrl ?URL (js ''x'') = Inr False" by (simp add: isValidUrl_def)
  have b: "body_url ?bad = Some (js ''x'')" and g: "?q (js ''url'') = Some (js ''x'')"
    by simp_all
  from missing f1 have "post_generate_pdf ?URL (steady_engine [37]) ?now ?none =
        (\<lparr>res_status = 400, res_headers = [],
          res_body = Json [(js ''error'', JString (js ''URL is required'')),
                           (js ''example'',
                              JObject [(js ''url'', JString (js ''https://example.com'')),
                                       (js ''filename'', JString (js ''optional-name.pdf''))])]\<rparr>,
         [])"
    by blast
  then have 1: "res_status (fst (post_generate_pdf ?URL (steady_engine [37]) ?now ?none)) = 400"
    and 2: "snd (post_generate_pdf ?URL (steady_engine [37]) ?now ?none) = []"
    by simp_all
  from missing f2 have "get_generate_pdf ?URL (steady_engine [37]) ?now Map.empty =
        (\<lparr>res_status = 400, res_headers = [],
          res_body = Json [(js ''error'', JString (js ''URL parameter is required'')),
                           (js ''example'',
                              JString (js ''/generate-pdf?url=https://example.com&filename=optional-name.pdf''))]\<rparr>,
         [])"
    by blast
  then have 3: "snd (get_generate_pdf ?URL (steady_engine [37]) ?now Map.empty) = []"
    by simp
  from invalid b x rejected have 4: "post_generate_pdf ?URL (steady_engine [37]) ?now ?bad =
     (\<lparr>res_status = 400, res_headers = [],
       res_body = Json [(js ''error'', JString (js ''Invalid URL format''))]\<rparr>, [])"
    by blast
  from invalid g x rejected have 5: "get_generate_pdf ?URL (steady_engine [37]) ?now ?q =
     (\<lparr>res_status = 400, res_headers = [],
       res_body = Json [(js ''error'', JString (js ''Invalid URL format''))]\<rparr>, [])"
    by blast
  from f1 1 2 f2 3 rejected 4 5 show ?thesis by blast
qed

text \<open>
  Claim C7 as stated fails on the GET route: a request with no \<open>url\<close> is answered with
  the error \<open>URL parameter is required\<close>, and no string of that body holds the text
  \<open>URL is required\<close>.
\<close>

theorem get_missing_url_counterexample:
  "res_body (fst (get_generate_pdf lenient_URL (steady_engine [37])
       (js ''2026-01-01T00:00:00.000Z'') Map.empty)) =
     Json [(js ''error'', JString (js ''URL parameter is required'')),
           (js ''example'',
              JString (js ''/generate-pdf?url=https://example.com&filename=optional-name.pdf''))] \<and>
   \<not> mentions (js ''URL parameter is required'') (js ''URL is required'') \<and>
   \<not> mentions (js ''/generate-pdf?url=https://example.com&filename=optional-name.pdf'')
       (js ''URL is required'') \<and>
   \<not> mentions (js ''error'') (js ''URL is required'') \<and>
   \<not> mentions (js ''example'') (js ''URL is required'')"
  by (simp add: get_generate_pdf_def Let_def falsy_def url_required_get_def mentions_def
      js_def sublist_Cons_right)

lemma pdfFilename_given: "f \<noteq> [] \<Longrightarrow> pdfFilename (Some f) url = f"
  by (simp add: pdfFilename_def)

lemma pdfFilename_fallback:
  "falsy filename \<Longrightarrow> pdfFilename filename url = sanitizeFilename url @ js ''.pdf''"
  by (simp add: pdfFilename_def falsy_def split: option.splits)

lemma count_dquote:
  "count_list (js ''attachment; filename='' @ [dquote] @ f @ [dquote]) dquote =
     2 + count_list f dquote"
  by (simp add: js_def dquote_def)

lemma example_fallback:
  "sanitizeFilename (js ''https://example.com'') @ js ''.pdf'' = js ''example_com.pdf''"
  by (simp add: sanitize_example) (simp add: js_def)

text \<open>
  Claim C8, as the code has it. On both routes, when the URL is valid, the adapter
  returns a PDF and the resolved name holds only code units that \<^verbatim>\<open>res.setHeader\<close> accepts
  (a tab, \<open>0x20\<close> to \<open>0x7E\<close>, \<open>0x80\<close> to \<open>0xFF\<close>), the response has status 200, the headers
  \<open>Content-Type: application/pdf\<close>, \<open>Content-Disposition: attachment; filename="name"\<close> and
  \<open>Content-Length\<close> the number of bytes of the PDF, and the PDF as its body. The resolved
  name is the caller's filename when that is a non-empty string, and \<open>sanitizeFilename url\<close>
  followed by \<open>.pdf\<close>, which \<^verbatim>\<open>res.setHeader\<close> always accepts, when the filename is missing
  or the empty string. When the resolved name holds a code unit that \<^verbatim>\<open>res.setHeader\<close>
  refuses, the request is answered 500.
\<close>

theorem download_response:
  "(\<forall>url buffer s. body_url body = Some url \<and> url \<noteq> [] \<and> isValidUrl URL url = Inr True \<and>
      generatePDF eng url (case body_options body of None \<Rightarrow> Map.empty | Some given \<Rightarrow> given)
        = (Inr buffer, s) \<and>
      list_all valid_header_unit (pdfFilename (body_filename body) url) \<longrightarrow>
      fst (post_generate_pdf URL eng now body) =
        \<lparr>res_status = 200,
         res_headers =
           [(js ''Content-Type'', HString (js ''application/pdf'')),
            (js ''Content-Disposition'',
               HString (js ''attachment; filename='' @ [dquote] @
                        pdfFilename (body_filename body) url @ [dquote])),
            (js ''Content-Length'', HNumber (length buffer))],
         res_body = Binary buffer\<rparr>) \<and>
   (\<forall>url buffer s. q (js ''url'') = Some url \<and> url \<noteq> [] \<and> isValidUrl URL url = Inr True \<and>
      generatePDF eng url Map.empty = (Inr buffer, s) \<and>
      list_all valid_header_unit (pdfFilename (q (js ''filename'')) url) \<longrightarrow>
      fst (get_generate_pdf URL eng now q) =
        \<lparr>res_status = 200,
         res_headers =
           [(js ''Content-Type'', HString (js ''application/pdf'')),
            (js ''Content-Disposition'',
               HString (js ''attachment; filename='' @ [dquote] @
                        pdfFilename (q (js ''filename'')) url @ [dquote])),
            (js ''Content-Length'', HNumber (length buffer))],
         res_body = Binary buffer\<rparr>) \<and>
   (\<forall>url buffer s. body_url body = Some url \<and> url \<noteq> [] \<and> isValidUrl URL url = Inr True \<and>
      generatePDF eng url (case body_options body of None \<Rightarrow> Map.empty | Some given \<Rightarrow> given)
        = (Inr buffer, s) \<and>
      \<not> list_all valid_header_unit (pdfFilename (body_filename body) url) \<longrightarrow>
      res_status (fst (post_generate_pdf URL eng now body)) = 500) \<and>
   (\<forall>url buffer s. q (js ''url'') = Some url \<and> url \<noteq> [] \<and> isValidUrl URL url = Inr True \<and>
      generatePDF eng url Map.empty = (Inr buffer, s) \<and>
      \<not> list_all valid_header_unit (pdfFilename (q (js ''filename'')) url) \<longrightarrow>
      res_status (fst (get_generate_pdf URL eng now q)) = 500) \<and>
   (\<forall>f. f \<noteq> [] \<longrightarrow> pdfFilename (Some f) u = f) \<and>
   pdfFilename None u = sanitizeFilename u @ js ''.pdf'' \<and>
   pdfFilename (Some []) u = sanitizeFilename u @ js ''.pdf'' \<and>
   list_all valid_header_unit (sanitizeFilename u @ js ''.pdf'')"
proof (intro conjI allI impI)
  fix url buffer s
  assume a: "body_url body = Some url \<and> url \<noteq> [] \<and> isValidUrl URL url = Inr True \<and>
      generatePDF eng url (case body_options body of None \<Rightarrow> Map.empty | Some given \<Rightarrow> given)
        = (Inr buffer, s) \<and>
      list_all valid_header_unit (pdfFilename (body_filename body) url)"
  then have "fst (post_generate_pdf URL eng now body) =
      send_pdf buffer (pdfFilename (body_filename body) url) now"
    using post_success by blast
  with a show "fst (post_generate_pdf URL eng now body) =
        \<lparr>res_status = 200,
         res_headers =
           [(js ''Content-Type'', HString (js ''application/pdf'')),
            (js ''Content-Disposition'',
               HString (js ''attachment; filename='' @ [dquote] @
                        pdfFilename (body_filename body) url @ [dquote])),
            (js ''Content-Length'', HNumber (length buffer))],
         res_body = Binary buffer\<rparr>"
    by (simp add: send_pdf_accepted)
next
  fix url buffer s
  assume a: "q (js ''url'') = Some url \<and> url \<noteq> [] \<and> isValidUrl URL url = Inr True \<and>
      generatePDF eng url Map.empty = (Inr buffer, s) \<and>
      list_all valid_header_unit (pdfFilename (q (js ''filename'')) url)"
  then have "fst (get_generate_pdf URL eng now q) =
      send_pdf buffer (pdfFilename (q (js ''filename'')) url) now"
    using get_success by blast
  with a show "fst (get_generate_pdf URL eng now q) =
        \<lparr>res_status = 200,
         res_headers =
           [(js ''Content-Type'', HString (js ''application/pdf'')),
            (js ''Content-Disposition'',
               HString (js ''attachment; filename='' @ [dquote] @
                        pdfFilename (q (js ''filename'')) url @ [dquote])),
            (js ''Content-Length'', HNumber (length buffer))],
         res_body = Binary buffer\<rparr>"
    by (simp add: send_pdf_accepted)
next
  fix url buffer s
  assume a: "body_url body = Some url \<and> url \<noteq> [] \<and> isValidUrl URL url = Inr True \<and>
      generatePDF eng url (case body_options body of None \<Rightarrow> Map.empty | Some given \<Rightarrow> given)
        = (Inr buffer, s) \<and>
      \<not> list_all valid_header_unit (pdfFilename (body_filename body) url)"
  then have "fst (post_generate_pdf URL eng now body) =
      send_pdf buffer (pdfFilename (body_filename body) url) now"
    using post_success by blast
  with a show "res_status (fst (post_generate_pdf URL eng now body)) = 500"
    by (simp add: content_disposition_refused)
next
  fix url buffer s
  assume a: "q (js ''url'') = Some url \<and> url \<noteq> [] \<and> isValidUrl URL url = Inr True \<and>
      generatePDF eng url Map.empty = (Inr buffer, s) \<and>
      \<not> list_all valid_header_unit (pdfFilename (q (js ''filename'')) url)"
  then have "fst (get_generate_pdf URL eng now q) =
      send_pdf buffer (pdfFilename (q (js ''filename'')) url) now"
    using get_success by blast
  with a show "res_status (fst (get_generate_pdf URL eng now q)) = 500"
    by (simp add: content_disposition_refused)
next
  fix f :: jsstring assume "f \<noteq> []"
  then show "pdfFilename (Some f) u = f" by (rule pdfFilename_given)
next
  show "pdfFilename None u = sanitizeFilename u @ js ''.pdf''"
    by (simp add: pdfFilename_def)
next
  show "pdfFilename (Some []) u = sanitizeFilename u @ js ''.pdf''"
    by (simp add: pdfFilename_def)
next
  show "list_all valid_header_unit (sanitizeFilename u @ js ''.pdf'')"
    by (rule fallback_valid)
qed

text \<open>
  The theorem on an engine that exports the two bytes \<open>37, 80\<close>: at a POST for
  \<open>https://example.com\<close> with the filename \<open>report.pdf\<close>, at a GET for the same URL with
  no filename, and at a POST and a GET whose filename holds a line feed, which are
  answered 500.
\<close>

theorem download_response_witness:
  "js ''report.pdf'' \<noteq> [] \<and>
   pdfFilename (Some (js ''report.pdf'')) (js ''https://example.com'') = js ''report.pdf'' \<and>
   list_all valid_header_unit (js ''report.pdf'') \<and>
   fst (post_generate_pdf lenient_URL (steady_engine [37, 80]) (js ''2026-01-01T00:00:00.000Z'')
      \<lparr>body_url = Some (js ''https://example.com''), body_filename = Some (js ''report.pdf''),
       body_options = None\<rparr>) =
     \<lparr>res_status = 200,
      res_headers =
        [(js ''Content-Type'', HString (js ''application/pdf'')),
         (js ''Content-Disposition'',
            HString (js ''attachment; filename='' @ [dquote] @ js ''report.pdf'' @ [dquote])),
         (js ''Content-Length'', HNumber 2)],
      res_body = Binary [37, 80]\<rparr> \<and>
   fst (get_generate_pdf lenient_URL (steady_engine [37, 80]) (js ''2026-01-01T00:00:00.000Z'')
      [js ''url'' \<mapsto> js ''https://example.com'']) =
     \<lparr>res_status = 200,
      res_headers =
        [(js ''Content-Type'', HString (js ''application/pdf'')),
         (js ''Content-Disposition'',
            HString (js ''attachment; filename='' @ [dquote] @ js ''example_com.pdf'' @ [dquote])),
         (js ''Content-Length'', HNumber 2)],
      res_body = Binary [37, 80]\<rparr> \<and>
   \<not> list_all valid_header_unit two_line_name \<and>
   res_status (fst (post_generate_pdf lenient_URL (steady_engine [37, 80])
      (js ''2026-01-01T00:00:00.000Z'')
      \<lparr>body_url = Some (js ''https://example.com''), body_filename = Some two_line_name,
       body_options = None\<rparr>)) = 500 \<and>
   res_status (fst (get_generate_pdf lenient_URL (steady_engine [37, 80])
      (js ''2026-01-01T00:00:00.000Z'')
      [js ''url'' \<mapsto> js ''https://example.com'', js ''filename'' \<mapsto> two_line_name])) = 500"
proof -
  let ?u = "js ''https://example.com''"
  let ?now = "js ''2026-01-01T00:00:00.000Z''"
  let ?eng = "steady_engine [37, 80]"
  let ?body = "\<lparr>body_url = Some ?u, body_filename = Some (js ''report.pdf''),
       body_options = None\<rparr>"
  let ?q = "[js ''url'' \<mapsto> ?u]"
  let ?body2 = "\<lparr>body_url = Some ?u, body_filename = Some two_line_name,
       body_options = None\<rparr>"
  let ?q2 = "[js ''url'' \<mapsto> ?u, js ''filename'' \<mapsto> two_line_name]"
  note inst = download_response [of ?body lenient_URL ?eng ?now ?q ?u]
  note inst2 = download_response [of ?body2 lenient_URL ?eng ?now ?q2 ?u]
  note post_ok = inst [THEN conjunct1]
  note get_ok = inst [THEN conjunct2, THEN conjunct1]
  note post_refused = inst2 [THEN conjunct2, THEN conjunct2, THEN conjunct1]
  note get_refused = inst2 [THEN conjunct2, THEN conjunct2, THEN conjunct2, THEN conjunct1]
  note names = inst [THEN conjunct2, THEN conjunct2, THEN conjunct2, THEN conjunct2]
  note names2 = inst2 [THEN conjunct2, THEN conjunct2, THEN conjunct2, THEN conjunct2]
  have name: "js ''report.pdf'' \<noteq> []" by (simp add: js_def)
  have name_ok: "list_all valid_header_unit (js ''report.pdf'')"
    by (simp add: js_def valid_header_unit_def)
  have nonempty: "?u \<noteq> []" by (simp add: js_def)
  have valid: "isValidUrl lenient_URL ?u = Inr True" by (rule lenient_example)
  obtain s where run: "generatePDF ?eng ?u Map.empty = (Inr [37, 80], s)"
    by (simp add: steady_run)
  from names name have given: "pdfFilename (Some (js ''report.pdf'')) ?u = js ''report.pdf''"
    by blast
  from names have "pdfFilename None ?u = sanitizeFilename ?u @ js ''.pdf''"
    by blast
  then have derived: "pdfFilename None ?u = js ''example_com.pdf''"
    by (simp add: example_fallback)
  have "body_url ?body = Some ?u \<and> ?u \<noteq> [] \<and> isValidUrl lenient_URL ?u = Inr True \<and>
      generatePDF ?eng ?u (case body_options ?body of None \<Rightarrow> Map.empty | Some given \<Rightarrow> given)
        = (Inr [37, 80], s) \<and>
      list_all valid_header_unit (pdfFilename (body_filename ?body) ?u)"
    using nonempty valid run given name_ok by simp
  with post_ok have "fst (post_generate_pdf lenient_URL ?eng ?now ?body) =
        \<lparr>res_status = 200,
         res_headers =
           [(js ''Content-Type'', HString (js ''application/pdf'')),
            (js ''Content-Disposition'',
               HString (js ''attachment; filename='' @ [dquote] @
                        pdfFilename (body_filename ?body) ?u @ [dquote])),
            (js ''Content-Length'', HNumber (length [37, 80 :: 8 word]))],
         res_body = Binary [37, 80]\<rparr>"
    by blast
  with given have p: "fst (post_generate_pdf lenient_URL ?eng ?now ?body) =
     \<lparr>res_status = 200,
      res_headers =
        [(js ''Content-Type'', HString (js ''application/pdf'')),
         (js ''Content-Disposition'',
            HString (js ''attachment; filename='' @ [dquote] @ js ''report.pdf'' @ [dquote])),
         (js ''Content-Length'', HNumber 2)],
      res_body = Binary [37, 80]\<rparr>"
    by simp
  have absent: "?q (js ''filename'') = None" by (simp add: js_def)
  have "?q (js ''url'') = Some ?u \<and> ?u \<noteq> [] \<and> isValidUrl lenient_URL ?u = Inr True \<and>
      generatePDF ?eng ?u Map.empty = (Inr [37, 80], s) \<and>
      list_all valid_header_unit (pdfFilename (?q (js ''filename'')) ?u)"
    using nonempty valid run absent derived example_name_valid by simp
  with get_ok have "fst (get_generate_pdf lenient_URL ?eng ?now ?q) =
        \<lparr>res_status = 200,
         res_headers =
           [(js ''Content-Type'', HString (js ''application/pdf'')),
            (js ''Content-Disposition'',
               HString (js ''attachment; filename='' @ [dquote] @
                        pdfFilename (?q (js ''filename'')) ?u @ [dquote])),
            (js ''Content-Length'', HNumber (length [37, 80 :: 8 word]))],
         res_body = Binary [37, 80]\<rparr>"
    by blast
  with absent derived have g: "fst (get_generate_pdf lenient_URL ?eng ?now ?q) =
     \<lparr>res_status = 200,
      res_headers =
        [(js ''Content-Type'', HString (js ''application/pdf'')),
         (js ''Content-Disposition'',
            HString (js ''attachment; filename='' @ [dquote] @ js ''example_com.pdf'' @ [dquote])),
         (js ''Content-Length'', HNumber 2)],
      res_body = Binary [37, 80]\<rparr>"
    by simp
  have bad: "\<not> list_all valid_header_unit two_line_name" and present: "two_line_name \<noteq> []"
    using two_line_name_refused by simp_all
  from names2 present have given2: "pdfFilename (Some two_line_name) ?u = two_line_name"
    by blast
  have "body_url ?body2 = Some ?u \<and> ?u \<noteq> [] \<and> isValidUrl lenient_URL ?u = Inr True \<and>
      generatePDF ?eng ?u (case body_options ?body2 of None \<Rightarrow> Map.empty | Some given \<Rightarrow> given)
        = (Inr [37, 80], s) \<and>
      \<not> list_all valid_header_unit (pdfFilename (body_filename ?body2) ?u)"
    using nonempty valid run given2 bad by simp
  with post_refused have p2: "res_status (fst (post_generate_pdf lenient_URL ?eng ?now ?body2)) = 500"
    by blast
  have "?q2 (js ''url'') = Some ?u" and "?q2 (js ''filename'') = Some two_line_name"
    by (simp_all add: js_def)
  then have "?q2 (js ''url'') = Some ?u \<and> ?u \<noteq> [] \<and> isValidUrl lenient_URL ?u = Inr True \<and>
      generatePDF ?eng ?u Map.empty = (Inr [37, 80], s) \<and>
      \<not> list_all valid_header_unit (pdfFilename (?q2 (js ''filename'')) ?u)"
    using nonempty valid run given2 bad by simp
  with get_refused have g2: "res_status (fst (get_generate_pdf lenient_URL ?eng ?now ?q2)) = 500"
    by blast
  from name given name_ok p g bad p2 g2 show ?thesis by blast
qed

text \<open>
  Claim C8 as stated fails for two requests on which the adapter returns a PDF. The GET
  request \<open>/generate-pdf?url=https://example.com&filename=\<close> carries the filename \<open>""\<close>, is
  answered 200, and the download is named \<open>example_com.pdf\<close>, not \<open>""\<close>. The GET request
  whose filename is \<open>a\<close>, line feed, \<open>b\<close> is answered 500 with no \<open>Content-Disposition\<close>
  header, since \<^verbatim>\<open>res.setHeader\<close> throws on the line feed.
\<close>

theorem resolved_filename_counterexample:
  "[js ''url'' \<mapsto> js ''https://example.com'', js ''filename'' \<mapsto> []] (js ''filename'') =
     Some [] \<and>
   res_status (fst (get_generate_pdf lenient_URL (steady_engine [37, 80])
       (js ''2026-01-01T00:00:00.000Z'')
       [js ''url'' \<mapsto> js ''https://example.com'', js ''filename'' \<mapsto> []])) = 200 \<and>
   map_of (res_headers (fst (get_generate_pdf lenient_URL (steady_engine [37, 80])
       (js ''2026-01-01T00:00:00.000Z'')
       [js ''url'' \<mapsto> js ''https://example.com'', js ''filename'' \<mapsto> []])))
     (js ''Content-Disposition'') =
     Some (HString (js ''attachment; filename='' @ [dquote] @ js ''example_com.pdf'' @ [dquote])) \<and>
   js ''attachment; filename='' @ [dquote] @ js ''example_com.pdf'' @ [dquote] \<noteq>
   js ''attachment; filename='' @ [dquote] @ [] @ [dquote] \<and>
   fst (generatePDF (steady_engine [37, 80]) (js ''https://example.com'') Map.empty) =
     Inr [37, 80] \<and>
   res_status (fst (get_generate_pdf lenient_URL (steady_engine [37, 80])
       (js ''2026-01-01T00:00:00.000Z'')
       [js ''url'' \<mapsto> js ''https://example.com'', js ''filename'' \<mapsto> two_line_name])) = 500 \<and>
   map_of (res_headers (fst (get_generate_pdf lenient_URL (steady_engine [37, 80])
       (js ''2026-01-01T00:00:00.000Z'')
       [js ''url'' \<mapsto> js ''https://example.com'', js ''filename'' \<mapsto> two_line_name])))
     (js ''Content-Disposition'') = None"
proof -
  let ?u = "js ''https://example.com''"
  let ?now = "js ''2026-01-01T00:00:00.000Z''"
  let ?q = "[js ''url'' \<mapsto> ?u, js ''filename'' \<mapsto> []]"
  let ?q2 = "[js ''url'' \<mapsto> ?u, js ''filename'' \<mapsto> two_line_name]"
  have u: "?q (js ''url'') = Some ?u" and f: "?q (js ''filename'') = Some []"
    by (simp_all add: js_def)
  have u2: "?q2 (js ''url'') = Some ?u" and f2: "?q2 (js ''filename'') = Some two_line_name"
    by (simp_all add: js_def)
  have nonempty: "?u \<noteq> []" by (simp add: js_def)
  have present: "two_line_name \<noteq> []" and bad: "\<not> list_all valid_header_unit two_line_name"
    using two_line_name_refused by simp_all
  have "fst (get_generate_pdf lenient_URL (steady_engine [37, 80]) ?now ?q) =
      send_pdf [37, 80] (pdfFilename (?q (js ''filename'')) ?u) ?now"
    using u nonempty lenient_example steady_run by (rule get_success)
  also have "pdfFilename (?q (js ''filename'')) ?u = js ''example_com.pdf''"
    unfolding f by (simp add: pdfFilename_def example_fallback)
  finally have r: "fst (get_generate_pdf lenient_URL (steady_engine [37, 80]) ?now ?q) =
      send_pdf [37, 80] (js ''example_com.pdf'') ?now" .
  have st: "res_status (fst (get_generate_pdf lenient_URL (steady_engine [37, 80]) ?now ?q)) = 200"
    unfolding r by (simp add: send_pdf_accepted example_name_valid)
  have h: "map_of (res_headers (fst (get_generate_pdf lenient_URL (steady_engine [37, 80])
       ?now ?q))) (js ''Content-Disposition'') =
     Some (HString (js ''attachment; filename='' @ [dquote] @ js ''example_com.pdf'' @ [dquote]))"
    unfolding r using example_name_valid by (rule content_disposition_send_pdf)
  have differs: "js ''attachment; filename='' @ [dquote] @ js ''example_com.pdf'' @ [dquote] \<noteq>
      js ''attachment; filename='' @ [dquote] @ [] @ [dquote]"
    by (simp add: js_def)
  have rendered: "fst (generatePDF (steady_engine [37, 80]) ?u Map.empty) = Inr [37, 80]"
    by (simp add: steady_run)
  have "fst (get_generate_pdf lenient_URL (steady_engine [37, 80]) ?now ?q2) =
      send_pdf [37, 80] (pdfFilename (?q2 (js ''filename'')) ?u) ?now"
    using u2 nonempty lenient_example steady_run by (rule get_success)
  also have "pdfFilename (?q2 (js ''filename'')) ?u = two_line_name"
    unfolding f2 using present by (simp add: pdfFilename_def)
  finally have r2: "fst (get_generate_pdf lenient_URL (steady_engine [37, 80]) ?now ?q2) =
      send_pdf [37, 80] two_line_name ?now" .
  have refused: "res_status (fst (get_generate_pdf lenient_URL (steady_engine [37, 80]) ?now ?q2)) = 500 \<and>
      map_of (res_headers (fst (get_generate_pdf lenient_URL (steady_engine [37, 80]) ?now ?q2)))
        (js ''Content-Disposition'') = None"
    unfolding r2 using bad by (rule content_disposition_refused)
  from f st h differs rendered refused show ?thesis by blast
qed

text \<open>
  Claim C10, as the code has it. On both routes a caller's filename that is a non-empty
  string of code units that \<^verbatim>\<open>res.setHeader\<close> accepts (a tab, \<open>0x20\<close> to \<open>0x7E\<close>, \<open>0x80\<close> to
  \<open>0xFF\<close>) is put into the \<open>Content-Disposition\<close> header as it is, between
  \<open>attachment; filename="\<close> and \<open>"\<close>. The double quote is such a code unit, and every
  double quote of the filename is a double quote of the header value, beside the two that
  enclose it. A non-empty filename with a code unit that \<^verbatim>\<open>res.setHeader\<close> refuses is
  answered 500, with no \<open>Content-Disposition\<close> header. Only the name derived from the URL,
  used when the filename is missing or empty, goes through \<open>sanitizeFilename\<close>.
\<close>

theorem content_disposition_verbatim:
  "(\<forall>url f buffer s. body_url body = Some url \<and> url \<noteq> [] \<and> isValidUrl URL url = Inr True \<and>
      generatePDF eng url (case body_options body of None \<Rightarrow> Map.empty | Some given \<Rightarrow> given)
        = (Inr buffer, s) \<and> body_filename body = Some f \<and> f \<noteq> [] \<and>
      list_all valid_header_unit f \<longrightarrow>
      map_of (res_headers (fst (post_generate_pdf URL eng now body))) (js ''Content-Disposition'') =
        Some (HString (js ''attachment; filename='' @ [dquote] @ f @ [dquote]))) \<and>
   (\<forall>url f buffer s. q (js ''url'') = Some url \<and> url \<noteq> [] \<and> isValidUrl URL url = Inr True \<and>
      generatePDF eng url Map.empty = (Inr buffer, s) \<and> q (js ''filename'') = Some f \<and> f \<noteq> [] \<and>
      list_all valid_header_unit f \<longrightarrow>
      map_of (res_headers (fst (get_generate_pdf URL eng now q))) (js ''Content-Disposition'') =
        Some (HString (js ''attachment; filename='' @ [dquote] @ f @ [dquote]))) \<and>
   (\<forall>url f buffer s. body_url body = Some url \<and> url \<noteq> [] \<and> isValidUrl URL url = Inr True \<and>
      generatePDF eng url (case body_options body of None \<Rightarrow> Map.empty | Some given \<Rightarrow> given)
        = (Inr buffer, s) \<and> body_filename body = Some f \<and> f \<noteq> [] \<and>
      \<not> list_all valid_header_unit f \<longrightarrow>
      res_status (fst (post_generate_pdf URL eng now body)) = 500 \<and>
      map_of (res_headers (fst (post_generate_pdf URL eng now body))) (js ''Content-Disposition'') =
        None) \<and>
   (\<forall>url f buffer s. q (js ''url'') = Some url \<and> url \<noteq> [] \<and> isValidUrl URL url = Inr True \<and>
      generatePDF eng url Map.empty = (Inr buffer, s) \<and> q (js ''filename'') = Some f \<and> f \<noteq> [] \<and>
      \<not> list_all valid_header_unit f \<longrightarrow>
      res_status (fst (get_generate_pdf URL eng now q)) = 500 \<and>
      map_of (res_headers (fst (get_generate_pdf URL eng now q))) (js ''Content-Disposition'') =
        None) \<and>
   valid_header_unit dquote \<and>
   (\<forall>f. count_list (js ''attachment; filename='' @ [dquote] @ f @ [dquote]) dquote =
      2 + count_list f dquote) \<and>
   (\<forall>url buffer s. body_url body = Some url \<and> url \<noteq> [] \<and> isValidUrl URL url = Inr True \<and>
      generatePDF eng url (case body_options body of None \<Rightarrow> Map.empty | Some given \<Rightarrow> given)
        = (Inr buffer, s) \<and> falsy (body_filename body) \<longrightarrow>
      map_of (res_headers (fst (post_generate_pdf URL eng now body))) (js ''Content-Disposition'') =
        Some (HString (js ''attachment; filename='' @ [dquote] @
                       (sanitizeFilename url @ js ''.pdf'') @ [dquote]))) \<and>
   (\<forall>url buffer s. q (js ''url'') = Some url \<and> url \<noteq> [] \<and> isValidUrl URL url = Inr True \<and>
      generatePDF eng url Map.empty = (Inr buffer, s) \<and> falsy (q (js ''filename'')) \<longrightarrow>
      map_of (res_headers (fst (get_generate_pdf URL eng now q))) (js ''Content-Disposition'') =
        Some (HString (js ''attachment; filename='' @ [dquote] @
                       (sanitizeFilename url @ js ''.pdf'') @ [dquote])))"
proof (intro conjI allI impI)
  fix url f buffer s
  assume a: "body_url body = Some url \<and> url \<noteq> [] \<and> isValidUrl URL url = Inr True \<and>
      generatePDF eng url (case body_options body of None \<Rightarrow> Map.empty | Some given \<Rightarrow> given)
        = (Inr buffer, s) \<and> body_filename body = Some f \<and> f \<noteq> [] \<and>
      list_all valid_header_unit f"
  then have "fst (post_generate_pdf URL eng now body) =
      send_pdf buffer (pdfFilename (body_filename body) url) now"
    using post_success by blast
  with a show "map_of (res_headers (fst (post_generate_pdf URL eng now body)))
        (js ''Content-Disposition'') =
        Some (HString (js ''attachment; filename='' @ [dquote] @ f @ [dquote]))"
    by (simp add: content_disposition_send_pdf pdfFilename_given)
next
  fix url f buffer s
  assume a: "q (js ''url'') = Some url \<and> url \<noteq> [] \<and> isValidUrl URL url = Inr True \<and>
      generatePDF eng url Map.empty = (Inr buffer, s) \<and> q (js ''filename'') = Some f \<and> f \<noteq> [] \<and>
      list_all valid_header_unit f"
  then have "fst (get_generate_pdf URL eng now q) =
      send_pdf buffer (pdfFilename (q (js ''filename'')) url) now"
    using get_success by blast
  with a show "map_of (res_headers (fst (get_generate_pdf URL eng now q)))
        (js ''Content-Disposition'') =
        Some (HString (js ''attachment; filename='' @ [dquote] @ f @ [dquote]))"
    by (simp add: content_disposition_send_pdf pdfFilename_given)
next
  fix url f buffer s
  assume a: "body_url body = Some url \<and> url \<noteq> [] \<and> isValidUrl URL url = Inr True \<and>
      generatePDF eng url (case body_options body of None \<Rightarrow> Map.empty | Some given \<Rightarrow> given)
        = (Inr buffer, s) \<and> body_filename body = Some f \<and> f \<noteq> [] \<and>
      \<not> list_all valid_header_unit f"
  then have "fst (post_generate_pdf URL eng now body) =
      send_pdf buffer (pdfFilename (body_filename body) url) now"
    using post_success by blast
  with a show "res_status (fst (post_generate_pdf URL eng now body)) = 500"
    by (simp add: content_disposition_refused pdfFilename_given)
next
  fix url f buffer s
  assume a: "body_url body = Some url \<and> url \<noteq> [] \<and> isValidUrl URL url = Inr True \<and>
      generatePDF eng url (case body_options body of None \<Rightarrow> Map.empty | Some given \<Rightarrow> given)
        = (Inr buffer, s) \<and> body_filename body = Some f \<and> f \<noteq> [] \<and>
      \<not> list_all valid_header_unit f"
  then have "fst (post_generate_pdf URL eng now body) =
      send_pdf buffer (pdfFilename (body_filename body) url) now"
    using post_success by blast
  with a show "map_of (res_headers (fst (post_generate_pdf URL eng now body)))
      (js ''Content-Disposition'') = None"
    by (simp add: content_disposition_refused pdfFilename_given)
next
  fix url f buffer s
  assume a: "q (js ''url'') = Some url \<and> url \<noteq> [] \<and> isValidUrl URL url = Inr True \<and>
      generatePDF eng url Map.empty = (Inr buffer, s) \<and> q (js ''filename'') = Some f \<and> f \<noteq> [] \<and>
      \<not> list_all valid_header_unit f"
  then have "fst (get_generate_pdf URL eng now q) =
      send_pdf buffer (pdfFilename (q (js ''filename'')) url) now"
    using get_success by blast
  with a show "res_status (fst (get_generate_pdf URL eng now q)) = 500"
    by (simp add: content_disposition_refused pdfFilename_given)
next
  fix url f buffer s
  assume a: "q (js ''url'') = Some url \<and> url \<noteq> [] \<and> isValidUrl URL url = Inr True \<and>
      generatePDF eng url Map.empty = (Inr buffer, s) \<and> q (js ''filename'') = Some f \<and> f \<noteq> [] \<and>
      \<not> list_all valid_header_unit f"
  then have "fst (get_generate_pdf URL eng now q) =
      send_pdf buffer (pdfFilename (q (js ''filename'')) url) now"
    using get_success by blast
  with a show "map_of (res_headers (fst (get_generate_pdf URL eng now q)))
      (js ''Content-Disposition'') = None"
    by (simp add: content_disposition_refused pdfFilename_given)
next
  show "valid_header_unit dquote"
    by (simp add: valid_header_unit_def dquote_def)
next
  fix f
  show "count_list (js ''attachment; filename='' @ [dquote] @ f @ [dquote]) dquote =
      2 + count_list f dquote"
    by (rule count_dquote)
next
  fix url buffer s
  assume a: "body_url body = Some url \<and> url \<noteq> [] \<and> isValidUrl URL url = Inr True \<and>
      generatePDF eng url (case body_options body of None \<Rightarrow> Map.empty | Some given \<Rightarrow> given)
        = (Inr buffer, s) \<and> falsy (body_filename body)"
  then have eq: "fst (post_generate_pdf URL eng now body) =
      send_pdf buffer (pdfFilename (body_filename body) url) now"
    using post_success by blast
  from a have nm: "pdfFilename (body_filename body) url = sanitizeFilename url @ js ''.pdf''"
    by (simp add: pdfFilename_fallback)
  show "map_of (res_headers (fst (post_generate_pdf URL eng now body)))
        (js ''Content-Disposition'') =
        Some (HString (js ''attachment; filename='' @ [dquote] @
                       (sanitizeFilename url @ js ''.pdf'') @ [dquote]))"
    unfolding eq nm using fallback_valid by (rule content_disposition_send_pdf)
next
  fix url buffer s
  assume a: "q (js ''url'') = Some url \<and> url \<noteq> [] \<and> isValidUrl URL url = Inr True \<and>
      generatePDF eng url Map.empty = (Inr buffer, s) \<and> falsy (q (js ''filename''))"
  then have eq: "fst (get_generate_pdf URL eng now q) =
      send_pdf buffer (pdfFilename (q (js ''filename'')) url) now"
    using get_success by blast
  from a have nm: "pdfFilename (q (js ''filename'')) url = sanitizeFilename url @ js ''.pdf''"
    by (simp add: pdfFilename_fallback)
  show "map_of (res_headers (fst (get_generate_pdf URL eng now q)))
        (js ''Content-Disposition'') =
        Some (HString (js ''attachment; filename='' @ [dquote] @
                       (sanitizeFilename url @ js ''.pdf'') @ [dquote]))"
    unfolding eq nm using fallback_valid by (rule content_disposition_send_pdf)
qed

text \<open>
  The theorem on both routes: at the filename \<open>a"b\<close>, whose header value is
  \<open>attachment; filename="a"b"\<close>, with three double quotes; at a filename that holds a line
  feed, answered 500 with no \<open>Content-Disposition\<close> header; and at requests with no
  filename, whose header carries the sanitized name.
\<close>

theorem content_disposition_verbatim_witness:
  "js ''a'' @ [dquote] @ js ''b'' \<noteq> [] \<and>
   list_all valid_header_unit (js ''a'' @ [dquote] @ js ''b'') \<and>
   map_of (res_headers (fst (post_generate_pdf lenient_URL (steady_engine [37, 80])
       (js ''2026-01-01T00:00:00.000Z'')
       \<lparr>body_url = Some (js ''https://example.com''),
        body_filename = Some (js ''a'' @ [dquote] @ js ''b''), body_options = None\<rparr>)))
     (js ''Content-Disposition'') =
     Some (HString (js ''attachment; filename='' @ [dquote] @ (js ''a'' @ [dquote] @ js ''b'') @
                    [dquote])) \<and>
   map_of (res_headers (fst (get_generate_pdf lenient_URL (steady_engine [37, 80])
       (js ''2026-01-01T00:00:00.000Z'')
       [js ''url'' \<mapsto> js ''https://example.com'',
        js ''filename'' \<mapsto> js ''a'' @ [dquote] @ js ''b''])))
     (js ''Content-Disposition'') =
     Some (HString (js ''attachment; filename='' @ [dquote] @ (js ''a'' @ [dquote] @ js ''b'') @
                    [dquote])) \<and>
   count_list (js ''attachment; filename='' @ [dquote] @ (js ''a'' @ [dquote] @ js ''b'') @
               [dquote]) dquote = 3 \<and>
   two_line_name \<noteq> [] \<and> \<not> list_all valid_header_unit two_line_name \<and>
   res_status (fst (post_generate_pdf lenient_URL (steady_engine [37, 80])
       (js ''2026-01-01T00:00:00.000Z'')
       \<lparr>body_url = Some (js ''https://example.com''), body_filename = Some two_line_name,
        body_options = None\<rparr>)) = 500 \<and>
   map_of (res_headers (fst (get_generate_pdf lenient_URL (steady_engine [37, 80])
       (js ''2026-01-01T00:00:00.000Z'')
       [js ''url'' \<mapsto> js ''https://example.com'', js ''filename'' \<mapsto> two_line_name])))
     (js ''Content-Disposition'') = None \<and>
   falsy (body_filename \<lparr>body_url = Some (js ''https://example.com''), body_filename = None,
       body_options = None\<rparr>) \<and>
   map_of (res_headers (fst (post_generate_pdf lenient_URL (steady_engine [37, 80])
       (js ''2026-01-01T00:00:00.000Z'')
       \<lparr>body_url = Some (js ''https://example.com''), body_filename = None,
        body_options = None\<rparr>)))
     (js ''Content-Disposition'') =
     Some (HString (js ''attachment; filename='' @ [dquote] @
                    (sanitizeFilename (js ''https://example.com'') @ js ''.pdf'') @ [dquote])) \<and>
   falsy ([js ''url'' \<mapsto> js ''https://example.com''] (js ''filename'')) \<and>
   map_of (res_headers (fst (get_generate_pdf lenient_URL (steady_engine [37, 80])
       (js ''2026-01-01T00:00:00.000Z'') [js ''url'' \<mapsto> js ''https://example.com''])))
     (js ''Content-Disposition'') =
     Some (HString (js ''attachment; filename='' @ [dquote] @
                    (sanitizeFilename (js ''https://example.com'') @ js ''.pdf'') @ [dquote]))"
proof -
  let ?u = "js ''https://example.com''"
  let ?q' = "[js ''url'' \<mapsto> ?u]"
  let ?f = "js ''a'' @ [dquote] @ js ''b''"
  let ?now = "js ''2026-01-01T00:00:00.000Z''"
  let ?eng = "steady_engine [37, 80]"
  let ?body = "\<lparr>body_url = Some ?u, body_filename = Some ?f, body_options = None\<rparr>"
  let ?bare = "\<lparr>body_url = Some ?u, body_filename = None, body_options = None\<rparr>"
  let ?q = "[js ''url'' \<mapsto> ?u, js ''filename'' \<mapsto> ?f]"
  let ?body2 = "\<lparr>body_url = Some ?u, body_filename = Some two_line_name,
       body_options = None\<rparr>"
  let ?q2 = "[js ''url'' \<mapsto> ?u, js ''filename'' \<mapsto> two_line_name]"
  note inst = content_disposition_verbatim [of ?body lenient_URL ?eng ?now ?q]
  note inst' = content_disposition_verbatim [of ?bare lenient_URL ?eng ?now ?q']
  note inst2 = content_disposition_verbatim [of ?body2 lenient_URL ?eng ?now ?q2]
  note post_ok = inst [THEN conjunct1]
  note get_ok = inst [THEN conjunct2, THEN conjunct1]
  note post_refused = inst2 [THEN conjunct2, THEN conjunct2, THEN conjunct1]
  note get_refused = inst2 [THEN conjunct2, THEN conjunct2, THEN conjunct2, THEN conjunct1]
  note quotes = inst [THEN conjunct2, THEN conjunct2, THEN conjunct2, THEN conjunct2,
    THEN conjunct2, THEN conjunct1]
  note post_derived = inst' [THEN conjunct2, THEN conjunct2, THEN conjunct2, THEN conjunct2,
    THEN conjunct2, THEN conjunct2, THEN conjunct1]
  note get_derived = inst' [THEN conjunct2, THEN conjunct2, THEN conjunct2, THEN conjunct2,
    THEN conjunct2, THEN conjunct2, THEN conjunct2]
  have f: "?f \<noteq> []" by (simp add: js_def)
  have f_ok: "list_all valid_header_unit ?f"
    by (simp add: js_def dquote_def valid_header_unit_def)
  have nonempty: "?u \<noteq> []" by (simp add: js_def)
  have valid: "isValidUrl lenient_URL ?u = Inr True" by (rule lenient_example)
  obtain s where run: "generatePDF ?eng ?u Map.empty = (Inr [37, 80], s)"
    by (simp add: steady_run)
  have "body_url ?body = Some ?u \<and> ?u \<noteq> [] \<and> isValidUrl lenient_URL ?u = Inr True \<and>
      generatePDF ?eng ?u (case body_options ?body of None \<Rightarrow> Map.empty | Some given \<Rightarrow> given)
        = (Inr [37, 80], s) \<and> body_filename ?body = Some ?f \<and> ?f \<noteq> [] \<and>
      list_all valid_header_unit ?f"
    using nonempty valid run f f_ok by simp
  with post_ok have p: "map_of (res_headers (fst (post_generate_pdf lenient_URL ?eng ?now ?body)))
      (js ''Content-Disposition'') =
      Some (HString (js ''attachment; filename='' @ [dquote] @ ?f @ [dquote]))"
    by blast
  have "?q (js ''url'') = Some ?u" and "?q (js ''filename'') = Some ?f"
    by (simp_all add: js_def)
  then have "?q (js ''url'') = Some ?u \<and> ?u \<noteq> [] \<and> isValidUrl lenient_URL ?u = Inr True \<and>
      generatePDF ?eng ?u Map.empty = (Inr [37, 80], s) \<and> ?q (js ''filename'') = Some ?f \<and>
      ?f \<noteq> [] \<and> list_all valid_header_unit ?f"
    using nonempty valid run f f_ok by blast
  with get_ok have g: "map_of (res_headers (fst (get_generate_pdf lenient_URL ?eng ?now ?q)))
      (js ''Content-Disposition'') =
      Some (HString (js ''attachment; filename='' @ [dquote] @ ?f @ [dquote]))"
    by blast
  from quotes have "count_list (js ''attachment; filename='' @ [dquote] @ ?f @ [dquote]) dquote =
      2 + count_list ?f dquote"
    by blast
  then have c: "count_list (js ''attachment; filename='' @ [dquote] @ ?f @ [dquote]) dquote = 3"
    by (simp add: js_def dquote_def)
  have present: "two_line_name \<noteq> []" and bad: "\<not> list_all valid_header_unit two_line_name"
    using two_line_name_refused by simp_all
  have "body_url ?body2 = Some ?u \<and> ?u \<noteq> [] \<and> isValidUrl lenient_URL ?u = Inr True \<and>
      generatePDF ?eng ?u (case body_options ?body2 of None \<Rightarrow> Map.empty | Some given \<Rightarrow> given)
        = (Inr [37, 80], s) \<and> body_filename ?body2 = Some two_line_name \<and>
      two_line_name \<noteq> [] \<and> \<not> list_all valid_header_unit two_line_name"
    using nonempty valid run present bad by simp
  with post_refused have p2: "res_status (fst (post_generate_pdf lenient_URL ?eng ?now ?body2)) = 500"
    by blast
  have "?q2 (js ''url'') = Some ?u" and "?q2 (js ''filename'') = Some two_line_name"
    by (simp_all add: js_def)
  then have "?q2 (js ''url'') = Some ?u \<and> ?u \<noteq> [] \<and> isValidUrl lenient_URL ?u = Inr True \<and>
      generatePDF ?eng ?u Map.empty = (Inr [37, 80], s) \<and>
      ?q2 (js ''filename'') = Some two_line_name \<and>
      two_line_name \<noteq> [] \<and> \<not> list_all valid_header_unit two_line_name"
    using nonempty valid run present bad by blast
  with get_refused have g2: "map_of (res_headers (fst (get_generate_pdf lenient_URL ?eng ?now ?q2)))
      (js ''Content-Disposition'') = None"
    by blast
  have none: "falsy (body_filename ?bare)" by (simp add: falsy_def)
  have "body_url ?bare = Some ?u \<and> ?u \<noteq> [] \<and> isValidUrl lenient_URL ?u = Inr True \<and>
      generatePDF ?eng ?u (case body_options ?bare of None \<Rightarrow> Map.empty | Some given \<Rightarrow> given)
        = (Inr [37, 80], s) \<and> falsy (body_filename ?bare)"
    using nonempty valid run none by simp
  with post_derived have d: "map_of (res_headers (fst (post_generate_pdf lenient_URL ?eng ?now ?bare)))
      (js ''Content-Disposition'') =
      Some (HString (js ''attachment; filename='' @ [dquote] @
                     (sanitizeFilename ?u @ js ''.pdf'') @ [dquote]))"
    by blast
  have none': "falsy (?q' (js ''filename''))" by (simp add: falsy_def js_def)
  have "?q' (js ''url'') = Some ?u \<and> ?u \<noteq> [] \<and> isValidUrl lenient_URL ?u = Inr True \<and>
      generatePDF ?eng ?u Map.empty = (Inr [37, 80], s) \<and> falsy (?q' (js ''filename''))"
    using nonempty valid run none' by simp
  with get_derived have d': "map_of (res_headers (fst (get_generate_pdf lenient_URL ?eng ?now ?q')))
      (js ''Content-Disposition'') =
      Some (HString (js ''attachment; filename='' @ [dquote] @
                     (sanitizeFilename ?u @ js ''.pdf'') @ [dquote]))"
    by blast
  from f f_ok p g c present bad p2 g2 none d none' d' show ?thesis by blast
qed

text \<open>
  Claim C10 as stated fails for two supplied filenames. For \<open>a\<close>, line feed, \<open>b\<close> the POST
  body \<open>{url: "https://example.com", filename: "a\nb"}\<close> is answered 500: \<^verbatim>\<open>res.setHeader\<close>
  throws and no \<open>Content-Disposition\<close> header is set. For the filename \<open>""\<close> the header
  value is \<open>attachment; filename="example_com.pdf"\<close>, not \<open>attachment; filename=""\<close>.
\<close>

theorem supplied_filename_header_counterexample:
  "two_line_name \<noteq> [] \<and>
   fst (post_generate_pdf lenient_URL (steady_engine [37, 80]) (js ''2026-01-01T00:00:00.000Z'')
       \<lparr>body_url = Some (js ''https://example.com''), body_filename = Some two_line_name,
        body_options = None\<rparr>) =
     \<lparr>res_status = 500,
      res_headers = [(js ''Content-Type'', HString (js ''application/pdf''))],
      res_body = Json [(js ''error'', JString (js ''Failed to generate PDF'')),
                       (js ''message'',
                          JString (js ''Invalid character in header content ['' @ [dquote] @
                                   js ''Content-Disposition'' @ [dquote] @ js '']'')),
                       (js ''timestamp'', JString (js ''2026-01-01T00:00:00.000Z''))]\<rparr> \<and>
   map_of (res_headers (fst (post_generate_pdf lenient_URL (steady_engine [37, 80])
       (js ''2026-01-01T00:00:00.000Z'')
       \<lparr>body_url = Some (js ''https://example.com''), body_filename = Some two_line_name,
        body_options = None\<rparr>)))
     (js ''Content-Disposition'') \<noteq>
     Some (HString (js ''attachment; filename='' @ [dquote] @ two_line_name @ [dquote])) \<and>
   body_filename \<lparr>body_url = Some (js ''https://example.com''), body_filename = Some [],
       body_options = None\<rparr> = Some [] \<and>
   map_of (res_headers (fst (post_generate_pdf lenient_URL (steady_engine [37, 80])
       (js ''2026-01-01T00:00:00.000Z'')
       \<lparr>body_url = Some (js ''https://example.com''), body_filename = Some [],
        body_options = None\<rparr>)))
     (js ''Content-Disposition'') \<noteq>
     Some (HString (js ''attachment; filename='' @ [dquote] @ [] @ [dquote])) \<and>
   map_of (res_headers (fst (post_generate_pdf lenient_URL (steady_engine [37, 80])
       (js ''2026-01-01T00:00:00.000Z'')
       \<lparr>body_url = Some (js ''https://example.com''), body_filename = Some [],
        body_options = None\<rparr>)))
     (js ''Content-Disposition'') =
     Some (HString (js ''attachment; filename='' @ [dquote] @ js ''example_com.pdf'' @ [dquote]))"
proof -
  let ?u = "js ''https://example.com''"
  let ?now = "js ''2026-01-01T00:00:00.000Z''"
  let ?body = "\<lparr>body_url = Some ?u, body_filename = Some [], body_options = None\<rparr>"
  let ?body2 = "\<lparr>body_url = Some ?u, body_filename = Some two_line_name,
       body_options = None\<rparr>"
  have nonempty: "?u \<noteq> []" by (simp add: js_def)
  have present: "two_line_name \<noteq> []" and bad: "\<not> list_all valid_header_unit two_line_name"
    using two_line_name_refused by simp_all
  have run: "generatePDF (steady_engine [37, 80]) ?u
      (case body_options ?body of None \<Rightarrow> Map.empty | Some given \<Rightarrow> given) =
      (Inr [37, 80], \<lparr>browser = True,
       trace = [Launch, NewPage, SetViewport 1920 1080, SetUserAgent, Goto ?u 30000,
                WaitForTimeout 2000, Pdf (pdfOptions Map.empty), Close]\<rparr>)"
    by (simp add: steady_run)
  have run2: "generatePDF (steady_engine [37, 80]) ?u
      (case body_options ?body2 of None \<Rightarrow> Map.empty | Some given \<Rightarrow> given) =
      (Inr [37, 80], \<lparr>browser = True,
       trace = [Launch, NewPage, SetViewport 1920 1080, SetUserAgent, Goto ?u 30000,
                WaitForTimeout 2000, Pdf (pdfOptions Map.empty), Close]\<rparr>)"
    by (simp add: steady_run)
  have "body_url ?body2 = Some ?u" by simp
  then have "fst (post_generate_pdf lenient_URL (steady_engine [37, 80]) ?now ?body2) =
      send_pdf [37, 80] (pdfFilename (body_filename ?body2) ?u) ?now"
    using nonempty lenient_example run2 by (rule post_success)
  also have "pdfFilename (body_filename ?body2) ?u = two_line_name"
    using present by (simp add: pdfFilename_def)
  finally have r2: "fst (post_generate_pdf lenient_URL (steady_engine [37, 80]) ?now ?body2) =
      send_pdf [37, 80] two_line_name ?now" .
  have whole: "fst (post_generate_pdf lenient_URL (steady_engine [37, 80]) ?now ?body2) =
     \<lparr>res_status = 500,
      res_headers = [(js ''Content-Type'', HString (js ''application/pdf''))],
      res_body = Json [(js ''error'', JString (js ''Failed to generate PDF'')),
                       (js ''message'',
                          JString (js ''Invalid character in header content ['' @ [dquote] @
                                   js ''Content-Disposition'' @ [dquote] @ js '']'')),
                       (js ''timestamp'', JString ?now)]\<rparr>"
    unfolding r2 using bad by (rule send_pdf_refused)
  have "map_of (res_headers (fst (post_generate_pdf lenient_URL (steady_engine [37, 80]) ?now ?body2)))
      (js ''Content-Disposition'') = None"
    unfolding r2 using bad by (simp add: content_disposition_refused)
  then have unset: "map_of (res_headers (fst (post_generate_pdf lenient_URL (steady_engine [37, 80])
      ?now ?body2))) (js ''Content-Disposition'') \<noteq>
      Some (HString (js ''attachment; filename='' @ [dquote] @ two_line_name @ [dquote]))"
    by simp
  have "body_url ?body = Some ?u" by simp
  then have "fst (post_generate_pdf lenient_URL (steady_engine [37, 80]) ?now ?body) =
      send_pdf [37, 80] (pdfFilename (body_filename ?body) ?u) ?now"
    using nonempty lenient_example run by (rule post_success)
  also have "pdfFilename (body_filename ?body) ?u = js ''example_com.pdf''"
    by (simp add: pdfFilename_def example_fallback)
  finally have r: "fst (post_generate_pdf lenient_URL (steady_engine [37, 80]) ?now ?body) =
      send_pdf [37, 80] (js ''example_com.pdf'') ?now" .
  have h: "map_of (res_headers (fst (post_generate_pdf lenient_URL (steady_engine [37, 80])
       ?now ?body))) (js ''Content-Disposition'') =
     Some (HString (js ''attachment; filename='' @ [dquote] @ js ''example_com.pdf'' @ [dquote]))"
    unfolding r using example_name_valid by (rule content_disposition_send_pdf)
  have "js ''attachment; filename='' @ [dquote] @ js ''example_com.pdf'' @ [dquote] \<noteq>
      js ''attachment; filename='' @ [dquote] @ [] @ [dquote]"
    by (simp add: js_def)
  with h have differs: "map_of (res_headers (fst (post_generate_pdf lenient_URL
      (steady_engine [37, 80]) ?now ?body))) (js ''Content-Disposition'') \<noteq>
      Some (HString (js ''attachment; filename='' @ [dquote] @ [] @ [dquote]))"
    by simp
  have supplied: "body_filename ?body = Some []" by simp
  from present whole unset supplied differs h show ?thesis by blast
qed

end
